theory Spec2Isabelle
  imports
    Complex_Main
    "HOL-Library.Char_ord"
    "HOL-Library.List_Lexorder"
    "HOL-Library.Product_Lexorder"
begin

section \<open>Strings\<close>

text \<open>
  Python strings are modelled as \<^typ>\<open>string\<close>; the model covers ASCII text, where
  \<^verbatim>\<open>str.lower\<close>, \<^verbatim>\<open>str.strip\<close> and the case-insensitive match of
  \<^verbatim>\<open>re.IGNORECASE\<close> act on single characters.
\<close>

definition lower_char :: "char \<Rightarrow> char" where
  "lower_char c =
     (let n = (of_char c :: nat) in if 65 \<le> n \<and> n \<le> 90 then char_of (n + 32) else c)"

definition lower :: "string \<Rightarrow> string" where
  "lower s = map lower_char s"

text \<open>\<^verbatim>\<open>str.isspace\<close> on one ASCII character: tab to carriage return, the four
  separators 0x1C to 0x1F, and the space.\<close>

definition is_space :: "char \<Rightarrow> bool" where
  "is_space c =
     (let n = (of_char c :: nat) in (9 \<le> n \<and> n \<le> 13) \<or> (28 \<le> n \<and> n \<le> 32))"

definition strip :: "string \<Rightarrow> string" where
  "strip s = rev (dropWhile is_space (rev (dropWhile is_space s)))"

definition startswith :: "string \<Rightarrow> string \<Rightarrow> bool" where
  "startswith s pre = (take (length pre) s = pre)"

definition endswith :: "string \<Rightarrow> string \<Rightarrow> bool" where
  "endswith s suf = (length suf \<le> length s \<and> drop (length s - length suf) s = suf)"

text \<open>\<^verbatim>\<open>sub in s\<close>: the substring test.\<close>

fun str_contains :: "string \<Rightarrow> string \<Rightarrow> bool" where
  "str_contains sub [] = (sub = [])"
| "str_contains sub (c # cs) = (startswith (c # cs) sub \<or> str_contains sub cs)"

text \<open>
  \<^verbatim>\<open>s.split(sep)\<close> for a non-empty separator: the pieces between the
  non-overlapping occurrences of \<open>sep\<close>, found left to right. \<open>acc\<close> holds the
  current piece, reversed. (Python raises \<^verbatim>\<open>ValueError\<close> on an empty separator;
  the program only splits at the literals \<^verbatim>\<open>"/d/"\<close> and \<^verbatim>\<open>"/"\<close>.)
\<close>

function split_from :: "string \<Rightarrow> string \<Rightarrow> string \<Rightarrow> string list" where
  "split_from sep acc [] = [rev acc]"
| "split_from sep acc (c # cs) =
     (if sep \<noteq> [] \<and> startswith (c # cs) sep
      then rev acc # split_from sep [] (drop (length sep) (c # cs))
      else split_from sep (c # acc) cs)"
  by pat_completeness auto
termination
  by (relation "measure (\<lambda>(sep, acc, s). length s)") auto

definition split :: "string \<Rightarrow> string \<Rightarrow> string list" where
  "split s sep = split_from sep [] s"

section \<open>Tables\<close>

text \<open>
  A cell of a pandas column: a missing value (\<^verbatim>\<open>NaN\<close>, \<^verbatim>\<open>None\<close>, \<^verbatim>\<open>NaT\<close>),
  a string, a number, a timestamp (nanoseconds since the epoch) or a calendar date (days
  since the epoch, what \<^verbatim>\<open>.dt.date\<close> yields).
\<close>

datatype cell = NA | Str string | Num int | Stamp int | Day int

text \<open>
  The exceptions of the program. \<open>KeyError\<close> carries the labels that do not exist.
  \<open>NotUnique l\<close> stands for the exception raised where the label \<open>l\<close> selects more
  than one column: \<^verbatim>\<open>df[l]\<close> is then a DataFrame, on which \<^verbatim>\<open>.str\<close>,
  \<^verbatim>\<open>.dt\<close>, \<^verbatim>\<open>pd.to_datetime\<close> and the grouping by \<open>l\<close> raise; the other uses of
  a duplicated label are treated the same and no theorem below rests on them.
\<close>

datatype exn =
    KeyError "string list"
  | NotUnique string
  | AttributeError string
  | IndexError

definition bind_exn :: "exn + 'a \<Rightarrow> ('a \<Rightarrow> exn + 'b) \<Rightarrow> exn + 'b" where
  "bind_exn m f = (case m of Inl e \<Rightarrow> Inl e | Inr x \<Rightarrow> f x)"

text \<open>
  A DataFrame: the length of its index and its columns in order, each a label with its
  cells. Labels may repeat (renaming can make two labels equal).
\<close>

record frame =
  nrows :: nat
  cols :: "(string \<times> cell list) list"

definition wf_frame :: "frame \<Rightarrow> bool" where
  "wf_frame df = list_all (\<lambda>c. length (snd c) = nrows df) (cols df)"

definition columns :: "frame \<Rightarrow> string list" where
  "columns df = map fst (cols df)"

text \<open>\<^verbatim>\<open>len(df)\<close> and \<^verbatim>\<open>df.empty\<close> (no rows or no columns).\<close>

definition len :: "frame \<Rightarrow> nat" where
  "len df = nrows df"

definition df_empty :: "frame \<Rightarrow> bool" where
  "df_empty df = (nrows df = 0 \<or> cols df = [])"

text \<open>\<^verbatim>\<open>df[label]\<close> read as a Series.\<close>

definition getitem :: "frame \<Rightarrow> string \<Rightarrow> exn + cell list" where
  "getitem df label =
     (case filter (\<lambda>c. fst c = label) (cols df) of
        [] \<Rightarrow> Inl (KeyError [label])
      | [c] \<Rightarrow> Inr (snd c)
      | _ \<Rightarrow> Inl (NotUnique label))"

text \<open>\<^verbatim>\<open>df[label] = series\<close>: replaces the column, or appends a new one.\<close>

definition setitem :: "frame \<Rightarrow> string \<Rightarrow> cell list \<Rightarrow> frame" where
  "setitem df label xs =
     (if label \<in> set (columns df)
      then df\<lparr>cols := map (\<lambda>c. if fst c = label then (label, xs) else c) (cols df)\<rparr>
      else df\<lparr>cols := cols df @ [(label, xs)]\<rparr>)"

text \<open>\<^verbatim>\<open>df.rename(columns=m)\<close>: a new frame; a label that is a key of \<open>m\<close> is
  replaced, any other is kept.\<close>

definition rename_label :: "(string \<times> string) list \<Rightarrow> string \<Rightarrow> string" where
  "rename_label m l = (case map_of m l of Some l' \<Rightarrow> l' | None \<Rightarrow> l)"

definition rename :: "frame \<Rightarrow> (string \<times> string) list \<Rightarrow> frame" where
  "rename df m = df\<lparr>cols := map (\<lambda>c. (rename_label m (fst c), snd c)) (cols df)\<rparr>"

text \<open>The frame with \<^verbatim>\<open>df.columns.str.strip()\<close> as its labels.\<close>

definition strip_columns :: "frame \<Rightarrow> frame" where
  "strip_columns df = df\<lparr>cols := map (\<lambda>c. (strip (fst c), snd c)) (cols df)\<rparr>"

text \<open>\<^verbatim>\<open>df.dropna(subset=[label])\<close>: the rows whose cell under \<open>label\<close> is not
  missing.\<close>

definition mask :: "bool list \<Rightarrow> 'a list \<Rightarrow> 'a list" where
  "mask keep xs = map snd (filter fst (zip keep xs))"

definition dropna :: "frame \<Rightarrow> string \<Rightarrow> exn + frame" where
  "dropna df label =
     bind_exn (getitem df label) (\<lambda>ks.
       let keep = map (\<lambda>k. k \<noteq> NA) ks
       in Inr \<lparr>nrows = length (filter id keep),
               cols = map (\<lambda>c. (fst c, mask keep (snd c))) (cols df)\<rparr>)"

text \<open>
  \<^verbatim>\<open>series.dt.date\<close>: the calendar date of each timestamp. The accessor exists on a
  datetime column only; the model has no separate dtype and takes a column for one when
  each of its cells is a timestamp or missing.
\<close>

definition ns_per_day :: int where
  "ns_per_day = 86400 * 1000000000"

definition is_datetime :: "cell \<Rightarrow> bool" where
  "is_datetime c = (case c of Stamp t \<Rightarrow> True | NA \<Rightarrow> True | _ \<Rightarrow> False)"

definition date_of :: "cell \<Rightarrow> cell" where
  "date_of c = (case c of Stamp t \<Rightarrow> Day (t div ns_per_day) | _ \<Rightarrow> NA)"

definition dt_date :: "cell list \<Rightarrow> exn + cell list" where
  "dt_date xs =
     (if list_all is_datetime xs then Inr (map date_of xs)
      else Inl (AttributeError ''Can only use .dt accessor with datetimelike values''))"

subsection \<open>Grouping\<close>

text \<open>
  \<^verbatim>\<open>groupby\<close> with its defaults (\<^verbatim>\<open>sort=True, dropna=True\<close>): one group per
  distinct key that is not missing, the groups in ascending order of the key. Numbers
  sort before strings; within a kind the order is that of the values.
\<close>

definition cell_key :: "cell \<Rightarrow> nat \<times> int \<times> string" where
  "cell_key c =
     (case c of NA \<Rightarrow> (0, 0, [])
      | Num n \<Rightarrow> (1, n, [])
      | Str s \<Rightarrow> (2, 0, s)
      | Day d \<Rightarrow> (3, d, [])
      | Stamp t \<Rightarrow> (4, t, []))"

definition group_keys :: "cell list \<Rightarrow> cell list" where
  "group_keys ks = sort_key cell_key (remdups (filter (\<lambda>k. k \<noteq> NA) ks))"

text \<open>The cells of the series \<open>vs\<close> in the rows whose key is \<open>k\<close>.\<close>

definition group :: "cell list \<Rightarrow> cell list \<Rightarrow> cell \<Rightarrow> cell list" where
  "group ks vs k = map snd (filter (\<lambda>p. fst p = k) (zip ks vs))"

text \<open>The aggregation \<^verbatim>\<open>'count'\<close> (the cells that are not missing) and the
  aggregation \<^verbatim>\<open>lambda x: (x=='Present').sum()\<close>.\<close>

definition count :: "cell list \<Rightarrow> nat" where
  "count vs = length (filter (\<lambda>v. v \<noteq> NA) vs)"

definition eq_Present_sum :: "cell list \<Rightarrow> nat" where
  "eq_Present_sum vs = length (filter (\<lambda>v. v = Str ''Present'') vs)"

text \<open>The labels a named aggregation asks for and the frame does not have:
  \<^verbatim>\<open>agg\<close> raises \<^verbatim>\<open>KeyError\<close> with them.\<close>

definition missing_columns :: "frame \<Rightarrow> string list \<Rightarrow> string list" where
  "missing_columns df labels = sort (filter (\<lambda>l. l \<notin> set (columns df)) labels)"

text \<open>
  The quotient of two integer columns, as numpy's float division gives it: a number,
  infinity for a positive count over zero, \<^verbatim>\<open>NaN\<close> for zero over zero. The
  quotient itself is kept exact (a rational), not rounded to a float.
\<close>

datatype ratio = Ratio rat | Infinite | NaN

definition divide_counts :: "nat \<Rightarrow> nat \<Rightarrow> ratio" where
  "divide_counts a b =
     (if b = 0 then (if a = 0 then NaN else Infinite) else Ratio (of_nat a / of_nat b))"

section \<open>Normalizer\<close>

text \<open>
  \<^verbatim>\<open>pd.to_datetime(series, errors='coerce')\<close>. The date parser of pandas is a
  parameter: \<open>parse xs c\<close> is the timestamp pandas reads from the cell \<open>c\<close> of the
  column \<open>xs\<close>, and \<open>None\<close> where it reads none. A missing cell stays missing; with
  \<^verbatim>\<open>errors='coerce'\<close> a cell that does not parse becomes \<^verbatim>\<open>NaT\<close>.
\<close>

type_synonym date_parser = "cell list \<Rightarrow> cell \<Rightarrow> int option"

definition coerce :: "(cell \<Rightarrow> int option) \<Rightarrow> cell \<Rightarrow> cell" where
  "coerce p c = (if c = NA then NA else (case p c of None \<Rightarrow> NA | Some t \<Rightarrow> Stamp t))"

definition to_datetime :: "date_parser \<Rightarrow> cell list \<Rightarrow> cell list" where
  "to_datetime parse xs = map (coerce (parse xs)) xs"

text \<open>
  The functions of the normalizer assign to their argument, so they are modelled on a
  store of objects: \<open>objs h r\<close> is the frame the reference \<open>r\<close> points to, and the
  references below \<open>fresh h\<close> are the ones in use.
\<close>

record store =
  objs :: "nat \<Rightarrow> frame"
  fresh :: nat

definition alloc :: "store \<Rightarrow> frame \<Rightarrow> store \<times> nat" where
  "alloc h df = (h\<lparr>objs := (objs h)(fresh h := df), fresh := Suc (fresh h)\<rparr>, fresh h)"

definition put :: "store \<Rightarrow> nat \<Rightarrow> frame \<Rightarrow> store" where
  "put h r df = h\<lparr>objs := (objs h)(r := df)\<rparr>"

definition empty_store :: store where
  "empty_store = \<lparr>objs = (\<lambda>r. \<lparr>nrows = 0, cols = []\<rparr>), fresh = 0\<rparr>"

definition rename_map_detentions :: "(string \<times> string) list" where
  "rename_map_detentions =
     [(''Student'', ''Student''),
      (''Year'', ''Year''),
      (''Reg. Form'', ''Reg Form''),
      (''House'', ''House''),
      (''Reason'', ''Reason''),
      (''Detention Type'', ''Detention Type''),
      (''Issued Date'', ''Issued Date''),
      (''Issued By'', ''Issued By''),
      (''Detention Date'', ''Detention Date''),
      (''Detention Attendance'', ''Detention Attendance'')]"

definition attendance_candidates :: "frame \<Rightarrow> string list" where
  "attendance_candidates df = filter (\<lambda>c. str_contains ''attendance'' (lower c)) (columns df)"

text \<open>The loop \<^verbatim>\<open>for col in [...]: if col in df.columns: df[col] = pd.to_datetime(df[col],
  errors='coerce')\<close>, on the object \<open>r\<close>.\<close>

fun parse_dates :: "date_parser \<Rightarrow> string list \<Rightarrow> store \<Rightarrow> nat \<Rightarrow> store \<times> exn option" where
  "parse_dates parse [] h r = (h, None)"
| "parse_dates parse (col # rest) h r =
     (if col \<in> set (columns (objs h r))
      then (case getitem (objs h r) col of
              Inl e \<Rightarrow> (h, Some e)
            | Inr xs \<Rightarrow>
                parse_dates parse rest (put h r (setitem (objs h r) col (to_datetime parse xs))) r)
      else parse_dates parse rest h r)"

text \<open>
  \<open>prepare_detentions parse h df\<close>: the store after the call and the reference returned,
  or the exception raised. The assignment to \<^verbatim>\<open>df.columns\<close> acts on the caller's
  object; each \<^verbatim>\<open>rename\<close> makes a new one.
\<close>

definition prepare_detentions :: "date_parser \<Rightarrow> store \<Rightarrow> nat \<Rightarrow> store \<times> (exn + nat)" where
  "prepare_detentions parse h df =
     (let h1 = put h df (strip_columns (objs h df));
          (h2, df2) = alloc h1 (rename (objs h1 df) rename_map_detentions);
          (h3, df3) =
            (if ''Detention Attendance'' \<notin> set (columns (objs h2 df2))
             then (case attendance_candidates (objs h2 df2) of
                     [] \<Rightarrow> (h2, df2)
                   | c # cs \<Rightarrow> alloc h2 (rename (objs h2 df2) [(c, ''Detention Attendance'')]))
             else (h2, df2));
          (h4, e) = parse_dates parse [''Issued Date'', ''Detention Date''] h3 df3
      in (h4, case e of None \<Rightarrow> Inr df3 | Some x \<Rightarrow> Inl x))"

definition rename_map_oncall :: "(string \<times> string) list" where
  "rename_map_oncall =
     [(''Date/Time'', ''DateTime''),
      (''Reported by'', ''Reported By''),
      (''Location'', ''Location''),
      (''Comments'', ''Comments''),
      (''Type'', ''Type''),
      (''Students involved'', ''Students''),
      (''Event'', ''Event''),
      (''Assigned to'', ''Assigned To''),
      (''Status'', ''Status'')]"

definition prepare_oncall :: "date_parser \<Rightarrow> store \<Rightarrow> nat \<Rightarrow> store \<times> (exn + nat)" where
  "prepare_oncall parse h df =
     (let (h1, df1) = alloc h (rename (objs h df) rename_map_oncall)
      in if ''DateTime'' \<in> set (columns (objs h1 df1))
         then (case getitem (objs h1 df1) ''DateTime'' of
                 Inl e \<Rightarrow> (h1, Inl e)
               | Inr xs \<Rightarrow>
                   (put h1 df1 (setitem (objs h1 df1) ''DateTime'' (to_datetime parse xs)),
                    Inr df1))
         else (h1, Inr df1))"

text \<open>The frame a normalizer returns for a table held by a new object.\<close>

definition returned :: "store \<times> (exn + nat) \<Rightarrow> exn + frame" where
  "returned res = (case snd res of Inl e \<Rightarrow> Inl e | Inr r \<Rightarrow> Inr (objs (fst res) r))"

definition normalize_detentions :: "date_parser \<Rightarrow> frame \<Rightarrow> exn + frame" where
  "normalize_detentions parse df =
     (let (h, r) = alloc empty_store df in returned (prepare_detentions parse h r))"

definition normalize_oncall :: "date_parser \<Rightarrow> frame \<Rightarrow> exn + frame" where
  "normalize_oncall parse df =
     (let (h, r) = alloc empty_store df in returned (prepare_oncall parse h r))"

section \<open>Dashboards\<close>

text \<open>
  What a dashboard function does is the list of the Streamlit elements it has shown, in
  order, and the exception that ended it, if one did. A metric shows a count or a
  ratio (the source formats the ratio as a percentage); a table and its chart show the
  rows of a breakdown.
\<close>

record det_row =
  key :: cell
  Issued :: nat
  Attended :: nat
  Attendance_Rate :: ratio

datatype metric = Count nat | Percent rat

datatype table = Detentions_table "det_row list" | Counts_table "(cell \<times> nat) list"

datatype widget =
    Header string
  | Info string
  | Warning string
  | Error string
  | Metric string metric
  | Expander string
  | Dataframe table
  | Altair_chart table

type_synonym rendering = "widget list \<times> exn option"

definition shown :: "widget list \<Rightarrow> rendering" where
  "shown ws = (ws, None)"

definition raised :: "exn \<Rightarrow> rendering" where
  "raised e = ([], Some e)"

definition and_then :: "rendering \<Rightarrow> rendering \<Rightarrow> rendering" where
  "and_then a b = (case snd a of Some e \<Rightarrow> a | None \<Rightarrow> (fst a @ fst b, snd b))"

subsection \<open>Detentions\<close>

text \<open>
  One cell under \<^verbatim>\<open>.astype(str).str.contains("Present", case=False, na=False)\<close>. The
  text of a number, a date or a missing value (\<^verbatim>\<open>'nan'\<close>) has no letter \<open>p\<close>, so
  only a string cell can match.
\<close>

definition present_loose :: "cell \<Rightarrow> bool" where
  "present_loose c = (case c of Str s \<Rightarrow> str_contains ''present'' (lower s) | _ \<Rightarrow> False)"

definition attended_total :: "frame \<Rightarrow> exn + nat" where
  "attended_total df =
     (if ''Detention Attendance'' \<in> set (columns df)
      then bind_exn (getitem df ''Detention Attendance'')
             (\<lambda>xs. Inr (length (filter present_loose xs)))
      else Inr 0)"

definition attendance_rate :: "nat \<Rightarrow> nat \<Rightarrow> rat" where
  "attendance_rate a total_detentions =
     (if total_detentions \<noteq> 0 then of_nat a / of_nat total_detentions else 0)"

definition detention_metrics :: "frame \<Rightarrow> rendering" where
  "detention_metrics df =
     (case attended_total df of
        Inl e \<Rightarrow> raised e
      | Inr a \<Rightarrow>
          shown [Metric ''Total Detentions'' (Count (len df)),
                 Metric ''Attended'' (Count a),
                 Metric ''Attendance Rate'' (Percent (attendance_rate a (len df)))])"

text \<open>
  \<^verbatim>\<open>.agg(Issued=('Student', 'count'), Attended=('Detention Attendance', lambda x:
  (x=='Present').sum())).reset_index()\<close> over the groups of the key column \<open>ks\<close>,
  with the column \<^verbatim>\<open>Attendance Rate = Attended / Issued\<close> added.
\<close>

definition agg_detentions :: "frame \<Rightarrow> cell list \<Rightarrow> exn + det_row list" where
  "agg_detentions df ks =
     (case missing_columns df [''Student'', ''Detention Attendance''] of
        m # ms \<Rightarrow> Inl (KeyError (m # ms))
      | [] \<Rightarrow>
          bind_exn (getitem df ''Student'') (\<lambda>st.
          bind_exn (getitem df ''Detention Attendance'') (\<lambda>att.
            Inr (map (\<lambda>k.
                   let i = count (group ks st k); a = eq_Present_sum (group ks att k)
                   in \<lparr>key = k, Issued = i, Attended = a,
                       Attendance_Rate = divide_counts a i\<rparr>)
                 (group_keys ks)))))"

definition year_breakdown :: "frame \<Rightarrow> exn + det_row list" where
  "year_breakdown df = bind_exn (getitem df ''Year'') (agg_detentions df)"

definition year_group_breakdown :: "frame \<Rightarrow> rendering" where
  "year_group_breakdown df =
     and_then (shown [Expander ''Year Group Breakdown''])
       (if ''Year'' \<in> set (columns df)
        then (case year_breakdown df of
                Inl e \<Rightarrow> raised e
              | Inr b \<Rightarrow> shown [Dataframe (Detentions_table b),
                                Altair_chart (Detentions_table b)])
        else shown [Warning ''The 'Year' column is missing from detentions data.''])"

text \<open>\<^verbatim>\<open>df.dropna(subset=[label]).assign(Date=lambda x: x[label].dt.date)\<close> and the
  key column of \<^verbatim>\<open>.groupby('Date')\<close>.\<close>

definition with_date :: "frame \<Rightarrow> string \<Rightarrow> exn + frame \<times> cell list" where
  "with_date df label =
     bind_exn (dropna df label) (\<lambda>d.
     bind_exn (getitem d label) (\<lambda>xs.
     bind_exn (dt_date xs) (\<lambda>ds.
       let d' = setitem d ''Date'' ds
       in bind_exn (getitem d' ''Date'') (\<lambda>ks. Inr (d', ks)))))"

definition daily_breakdown :: "frame \<Rightarrow> exn + det_row list" where
  "daily_breakdown df =
     bind_exn (with_date df ''Issued Date'') (\<lambda>(d, ks). agg_detentions d ks)"

definition daily_monitoring :: "frame \<Rightarrow> rendering" where
  "daily_monitoring df =
     and_then (shown [Expander ''Daily Monitoring''])
       (if ''Issued Date'' \<in> set (columns df)
        then (case daily_breakdown df of
                Inl e \<Rightarrow> raised e
              | Inr b \<Rightarrow> shown [Dataframe (Detentions_table b),
                                Altair_chart (Detentions_table b)])
        else shown [Warning ''The 'Issued Date' column is missing from detentions data.''])"

definition render_detentions_dashboard :: "frame \<Rightarrow> rendering" where
  "render_detentions_dashboard df =
     and_then (shown [Header ''Detentions Dashboard''])
       (if df_empty df then shown [Info ''No detentions data available.'']
        else and_then (detention_metrics df)
               (and_then (year_group_breakdown df) (daily_monitoring df)))"

subsection \<open>On-call incidents\<close>

text \<open>
  \<^verbatim>\<open>series.str.contains(pat, na=False).sum()\<close> for a pattern of letters. The
  \<^verbatim>\<open>.str\<close> accessor exists on a column of strings only: the model takes a column
  for one when it has a string cell (a column that is all numbers or all missing is
  numeric for pandas). A cell that is not a string counts as no match.
\<close>

definition is_Str :: "cell \<Rightarrow> bool" where
  "is_Str c = (case c of Str s \<Rightarrow> True | _ \<Rightarrow> False)"

definition str_accessor :: "cell list \<Rightarrow> exn + cell list" where
  "str_accessor xs =
     (if list_ex is_Str xs then Inr xs
      else Inl (AttributeError ''Can only use .str accessor with string values!''))"

definition contains_sum :: "string \<Rightarrow> cell list \<Rightarrow> nat" where
  "contains_sum pat xs =
     length (filter (\<lambda>c. case c of Str s \<Rightarrow> str_contains pat s | _ \<Rightarrow> False) xs)"

definition status_count :: "frame \<Rightarrow> string \<Rightarrow> exn + nat" where
  "status_count df pat =
     bind_exn (getitem df ''Status'') (\<lambda>xs.
     bind_exn (str_accessor xs) (\<lambda>s. Inr (contains_sum pat s)))"

definition oncall_metrics :: "frame \<Rightarrow> rendering" where
  "oncall_metrics df =
     (case status_count df ''Resolved'' of
        Inl e \<Rightarrow> raised e
      | Inr r \<Rightarrow>
          (case status_count df ''Unresolved'' of
             Inl e \<Rightarrow> raised e
           | Inr u \<Rightarrow>
               shown [Metric ''Total Incidents'' (Count (len df)),
                      Metric ''Resolved'' (Count r),
                      Metric ''Unresolved'' (Count u)]))"

text \<open>
  \<^verbatim>\<open>series.value_counts().reset_index()\<close>: one row per distinct value that is not
  missing, with the number of its occurrences, the most frequent first (values of equal
  frequency in the order of their first occurrence). The source then names the two
  columns \<^verbatim>\<open>Type\<close> and \<^verbatim>\<open>Count\<close>.
\<close>

definition value_counts :: "cell list \<Rightarrow> (cell \<times> nat) list" where
  "value_counts xs =
     sort_key (\<lambda>p. - int (snd p))
       (map (\<lambda>k. (k, length (filter (\<lambda>x. x = k) xs)))
          (rev (remdups (rev (filter (\<lambda>x. x \<noteq> NA) xs)))))"

definition type_counts :: "frame \<Rightarrow> exn + (cell \<times> nat) list" where
  "type_counts df = bind_exn (getitem df ''Type'') (\<lambda>xs. Inr (value_counts xs))"

definition incident_type_breakdown :: "frame \<Rightarrow> rendering" where
  "incident_type_breakdown df =
     and_then (shown [Expander ''Incident Type Breakdown''])
       (if ''Type'' \<in> set (columns df)
        then (case type_counts df of
                Inl e \<Rightarrow> raised e
              | Inr b \<Rightarrow> shown [Dataframe (Counts_table b), Altair_chart (Counts_table b)])
        else shown [Warning ''The 'Type' column is missing from on-call data.''])"

text \<open>\<^verbatim>\<open>.agg(Incidents=('DateTime', 'count')).reset_index()\<close> over the groups of the
  key column \<open>ks\<close>.\<close>

definition agg_incidents :: "frame \<Rightarrow> cell list \<Rightarrow> exn + (cell \<times> nat) list" where
  "agg_incidents df ks =
     (case missing_columns df [''DateTime''] of
        m # ms \<Rightarrow> Inl (KeyError (m # ms))
      | [] \<Rightarrow>
          bind_exn (getitem df ''DateTime'') (\<lambda>ts.
            Inr (map (\<lambda>k. (k, count (group ks ts k))) (group_keys ks))))"

definition daily_incidents :: "frame \<Rightarrow> exn + (cell \<times> nat) list" where
  "daily_incidents df =
     bind_exn (with_date df ''DateTime'') (\<lambda>(d, ks). agg_incidents d ks)"

definition oncall_daily_monitoring :: "frame \<Rightarrow> rendering" where
  "oncall_daily_monitoring df =
     and_then (shown [Expander ''Daily Monitoring''])
       (if ''DateTime'' \<in> set (columns df)
        then (case daily_incidents df of
                Inl e \<Rightarrow> raised e
              | Inr b \<Rightarrow> shown [Dataframe (Counts_table b), Altair_chart (Counts_table b)])
        else shown [Warning ''The 'Date/Time' column is missing from on-call data.''])"

definition render_oncall_dashboard :: "frame \<Rightarrow> rendering" where
  "render_oncall_dashboard df =
     and_then (shown [Header ''On-Call Dashboard''])
       (if df_empty df then shown [Info ''No on-call data available.'']
        else and_then (oncall_metrics df)
               (and_then (incident_type_breakdown df) (oncall_daily_monitoring df)))"

section \<open>Loader and main\<close>

text \<open>
  Reading a file or a link is the work of \<^verbatim>\<open>pd.read_csv\<close> and
  \<^verbatim>\<open>pd.read_excel\<close>, taken as parameters: each gives the table read or the message
  of the exception raised. What the program reads and shows is kept in a log.
\<close>

record uploaded_file =
  name :: string
  content :: string

datatype source = Upload uploaded_file | Link string

record env =
  read_csv :: "source \<Rightarrow> string + frame"
  read_excel :: "source \<Rightarrow> string + frame"

datatype event = Read_csv source | Read_excel source | Show widget

text \<open>A read inside \<^verbatim>\<open>try: ... except Exception as exc: st.error(f"<msg>{exc}");
  return None\<close>.\<close>

definition reading :: "string \<Rightarrow> event \<Rightarrow> string + frame \<Rightarrow> event list \<times> frame option" where
  "reading msg ev res =
     (case res of
        Inr df \<Rightarrow> ([ev], Some df)
      | Inl m \<Rightarrow> ([ev, Show (Error (msg @ m))], None))"

definition load_data_from_file :: "env \<Rightarrow> uploaded_file option \<Rightarrow> event list \<times> frame option" where
  "load_data_from_file e uploaded =
     (case uploaded of
        None \<Rightarrow> ([], None)
      | Some f \<Rightarrow>
          (let filename = lower (name f)
           in if endswith filename ''.csv''
              then reading ''Error reading file: '' (Read_csv (Upload f)) (read_csv e (Upload f))
              else if endswith filename ''.xlsx'' \<or> endswith filename ''.xls''
              then reading ''Error reading file: '' (Read_excel (Upload f))
                     (read_excel e (Upload f))
              else ([Show (Error
                      ''Unsupported file format. Please upload a CSV or Excel file.'')],
                    None)))"

text \<open>\<^verbatim>\<open>url.split("/d/")[1].split("/")[0]\<close>; an index out of range raises
  \<^verbatim>\<open>IndexError\<close>.\<close>

definition sheet_id :: "string \<Rightarrow> exn + string" where
  "sheet_id url =
     (case split url ''/d/'' of
        a # b # rest \<Rightarrow> (case split b ''/'' of c # cs \<Rightarrow> Inr c | [] \<Rightarrow> Inl IndexError)
      | _ \<Rightarrow> Inl IndexError)"

text \<open>The URL the loader reads: the link trimmed, and rewritten to the CSV export of
  the sheet when it is a Google Sheets edit link. An exception in the rewriting is caught
  and the trimmed link is kept.\<close>

definition sheets_export_url :: "string \<Rightarrow> string" where
  "sheets_export_url url0 =
     (let url = strip url0
      in if str_contains ''docs.google.com'' url \<and> str_contains ''/edit'' url
         then (case sheet_id url of
                 Inr i \<Rightarrow> ''https://docs.google.com/spreadsheets/d/'' @ i @ ''/export?format=csv''
               | Inl e \<Rightarrow> url)
         else url)"

definition load_data_from_url :: "env \<Rightarrow> string \<Rightarrow> event list \<times> frame option" where
  "load_data_from_url e url0 =
     (if url0 = [] then ([], None)
      else (let url = sheets_export_url url0; lower_url = lower url
            in if endswith lower_url ''.xlsx'' \<or> endswith lower_url ''.xls''
               then reading ''Error loading data from URL: '' (Read_excel (Link url))
                      (read_excel e (Link url))
               else reading ''Error loading data from URL: '' (Read_csv (Link url))
                      (read_csv e (Link url))))"

text \<open>The choice \<^verbatim>\<open>if file is not None: ... elif url: ...\<close> that \<^verbatim>\<open>main\<close> makes
  for each of the two datasets.\<close>

definition load_dataset :: "env \<Rightarrow> uploaded_file option \<Rightarrow> string \<Rightarrow> event list \<times> frame option" where
  "load_dataset e file url =
     (if file \<noteq> None then load_data_from_file e file
      else if url \<noteq> [] then load_data_from_url e url
      else ([], None))"

text \<open>
  \<^verbatim>\<open>main\<close> from the values of its four input widgets on: the two uploads and the
  two links. It gives the log and the exception that ended the run, if one did.
\<close>

definition main ::
  "env \<Rightarrow> date_parser \<Rightarrow> uploaded_file option \<Rightarrow> uploaded_file option \<Rightarrow> string \<Rightarrow> string
     \<Rightarrow> event list \<times> exn option" where
  "main e parse det_file on_file det_sheet_url on_sheet_url =
     (let (log1, det_df) = load_dataset e det_file det_sheet_url;
          (log2, on_df) = load_dataset e on_file on_sheet_url;
          detentions =
            (case det_df of
               None \<Rightarrow> shown []
             | Some df \<Rightarrow>
                 (case normalize_detentions parse df of
                    Inl x \<Rightarrow> raised x
                  | Inr d \<Rightarrow> render_detentions_dashboard d));
          oncall =
            (case on_df of
               None \<Rightarrow> shown []
             | Some df \<Rightarrow>
                 (case normalize_oncall parse df of
                    Inl x \<Rightarrow> raised x
                  | Inr d \<Rightarrow> render_oncall_dashboard d));
          notice =
            (if det_df = None \<and> on_df = None
             then shown [Info
               ''Please upload data files or provide Google Sheets links to see the dashboards.'']
             else shown []);
          r = and_then detentions (and_then oncall notice)
      in (log1 @ log2 @ map Show (fst r), snd r))"

section \<open>Notions used in the proofs\<close>



text \<open>The day a date cell stands for.\<close>

definition day_number :: "cell \<Rightarrow> int" where
  "day_number c = (case c of Day d \<Rightarrow> d | _ \<Rightarrow> 0)"

section \<open>Missing columns\<close>

text \<open>
  Claim C1 says that a missing column never raises. Two tables, each normalized (the
  normalizers leave them as they are), end their dashboard with \<^verbatim>\<open>KeyError\<close>: an
  incidents table without \<^verbatim>\<open>Status\<close> raises at the first metric, before anything but
  the header is shown, and a detentions table with \<^verbatim>\<open>Year\<close> but without
  \<^verbatim>\<open>Student\<close> and \<^verbatim>\<open>Detention Attendance\<close> raises in the year breakdown, after
  the three metrics.
\<close>

theorem missing_column_raises:
  "normalize_oncall parse \<lparr>nrows = 1, cols = [(''Type'', [Str ''Fight''])]\<rparr>
     = Inr \<lparr>nrows = 1, cols = [(''Type'', [Str ''Fight''])]\<rparr>
   \<and> render_oncall_dashboard \<lparr>nrows = 1, cols = [(''Type'', [Str ''Fight''])]\<rparr>
     = ([Header ''On-Call Dashboard''], Some (KeyError [''Status'']))
   \<and> normalize_detentions parse \<lparr>nrows = 1, cols = [(''Year'', [Num 7])]\<rparr>
     = Inr \<lparr>nrows = 1, cols = [(''Year'', [Num 7])]\<rparr>
   \<and> render_detentions_dashboard \<lparr>nrows = 1, cols = [(''Year'', [Num 7])]\<rparr>
     = ([Header ''Detentions Dashboard'',
         Metric ''Total Detentions'' (Count 1),
         Metric ''Attended'' (Count 0),
         Metric ''Attendance Rate'' (Percent 0),
         Expander ''Year Group Breakdown''],
        Some (KeyError [''Detention Attendance'', ''Student'']))"
  by code_simp

section \<open>Trimming of column names\<close>

text \<open>
  Claim C6 says that both normalizers trim the column names. The detentions normalizer
  does; the incidents normalizer renames without trimming, so the column
  \<^verbatim>\<open>" Status "\<close> keeps its spaces, the table differs from the one normalized from
  \<^verbatim>\<open>"Status"\<close>, and its dashboard raises \<^verbatim>\<open>KeyError\<close> for \<^verbatim>\<open>Status\<close>.
\<close>

theorem oncall_labels_not_trimmed:
  "normalize_oncall parse \<lparr>nrows = 1, cols = [('' Status '', [Str ''Resolved''])]\<rparr>
     = Inr \<lparr>nrows = 1, cols = [('' Status '', [Str ''Resolved''])]\<rparr>
   \<and> normalize_oncall parse \<lparr>nrows = 1, cols = [(''Status'', [Str ''Resolved''])]\<rparr>
     = Inr \<lparr>nrows = 1, cols = [(''Status'', [Str ''Resolved''])]\<rparr>
   \<and> render_oncall_dashboard \<lparr>nrows = 1, cols = [('' Status '', [Str ''Resolved''])]\<rparr>
     = ([Header ''On-Call Dashboard''], Some (KeyError [''Status'']))
   \<and> normalize_detentions parse \<lparr>nrows = 1, cols = [('' Year '', [Num 7])]\<rparr>
     = normalize_detentions parse \<lparr>nrows = 1, cols = [(''Year'', [Num 7])]\<rparr>"
  by code_simp

section \<open>The upload comes before the link\<close>

lemma load_dataset_Some: "load_dataset e (Some f) url = load_data_from_file e (Some f)"
  by (simp add: load_dataset_def)

lemma load_dataset_None: "load_dataset e None url = load_data_from_url e url"
  by (simp add: load_dataset_def load_data_from_url_def)

lemma file_reads_no_link:
  "Read_csv (Link u) \<notin> set (fst (load_data_from_file e file))"
  "Read_excel (Link u) \<notin> set (fst (load_data_from_file e file))"
  by (auto simp: load_data_from_file_def Let_def reading_def split: option.splits sum.splits)

lemma main_log:
  "\<exists>ws. fst (main e parse det_file on_file det_url on_url)
     = fst (load_dataset e det_file det_url) @ fst (load_dataset e on_file on_url) @ map Show ws"
  by (auto simp: main_def Let_def split: prod.splits)

lemma file_log_nonempty: "fst (load_data_from_file e (Some f)) \<noteq> []"
  by (auto simp: load_data_from_file_def Let_def reading_def split: sum.splits)

text \<open>
  Claim C10. For either dataset, when a file is uploaded the loading is that of the
  file, whatever the link: nothing is read from a link, and the run of \<^verbatim>\<open>main\<close> is
  the same for any two links of that dataset. With no file the loading is that of the
  link. In the log of \<^verbatim>\<open>main\<close> the loading of the detentions comes first and the
  loading of the incidents next, before anything a dashboard shows: with a file uploaded
  the log has the reading of that file at that place, which is never empty, and with no
  file it has the loading of the link there. With both files uploaded the log of
  \<^verbatim>\<open>main\<close> has no reading of any link.
\<close>

theorem upload_takes_precedence:
  "load_dataset e (Some f) url = load_data_from_file e (Some f)
   \<and> Read_csv (Link u) \<notin> set (fst (load_dataset e (Some f) url))
   \<and> Read_excel (Link u) \<notin> set (fst (load_dataset e (Some f) url))
   \<and> load_dataset e None url = load_data_from_url e url
   \<and> main e parse (Some f) on_file url on_url = main e parse (Some f) on_file url' on_url
   \<and> main e parse det_file (Some f) det_url url = main e parse det_file (Some f) det_url url'
   \<and> (\<exists>ws. fst (main e parse (Some f) on_file url on_url)
          = fst (load_data_from_file e (Some f)) @ fst (load_dataset e on_file on_url)
            @ map Show ws)
   \<and> (\<exists>ws. fst (main e parse det_file (Some f) det_url url)
          = fst (load_dataset e det_file det_url) @ fst (load_data_from_file e (Some f))
            @ map Show ws)
   \<and> fst (load_data_from_file e (Some f)) \<noteq> []
   \<and> (\<exists>ws. fst (main e parse None on_file url on_url)
          = fst (load_data_from_url e url) @ fst (load_dataset e on_file on_url) @ map Show ws)
   \<and> (\<exists>ws. fst (main e parse det_file None det_url url)
          = fst (load_dataset e det_file det_url) @ fst (load_data_from_url e url) @ map Show ws)
   \<and> Read_csv (Link u) \<notin> set (fst (main e parse (Some f) (Some f') url url'))
   \<and> Read_excel (Link u) \<notin> set (fst (main e parse (Some f) (Some f') url url'))"
proof -
  have m: "\<exists>ws. fst (main e parse det_file on_file det_url on_url)
     = fst (load_dataset e det_file det_url) @ fst (load_dataset e on_file on_url) @ map Show ws"
    for det_file on_file det_url on_url
    by (rule main_log)
  have both: "x \<notin> set (fst (main e parse (Some f) (Some f') url url'))"
    if "x \<notin> set (fst (load_data_from_file e (Some f)))"
      and "x \<notin> set (fst (load_data_from_file e (Some f')))" and "\<And>w. x \<noteq> Show w" for x
  proof -
    from m[of "Some f" "Some f'" url url'] obtain ws where
      "fst (main e parse (Some f) (Some f') url url')
         = fst (load_data_from_file e (Some f)) @ fst (load_data_from_file e (Some f')) @ map Show ws"
      by (auto simp: load_dataset_Some)
    then show ?thesis using that by auto
  qed
  show ?thesis
    using m[of "Some f" on_file url on_url] m[of det_file "Some f" det_url url]
      m[of None on_file url on_url] m[of det_file None det_url url]
      both[of "Read_csv (Link u)"] both[of "Read_excel (Link u)"]
    by (simp add: load_dataset_Some load_dataset_None file_reads_no_link main_def
        file_log_nonempty)
qed

theorem upload_takes_precedence_witness:
  "load_dataset \<lparr>read_csv = (\<lambda>s. Inl ''no''), read_excel = (\<lambda>s. Inl ''no'')\<rparr>
      (Some \<lparr>name = ''log.csv'', content = ''x''\<rparr>) ''https://example.org/a.csv''
   = ([Read_csv (Upload \<lparr>name = ''log.csv'', content = ''x''\<rparr>),
       Show (Error ''Error reading file: no'')], None)"
proof -
  have "load_data_from_file \<lparr>read_csv = (\<lambda>s. Inl ''no''), read_excel = (\<lambda>s. Inl ''no'')\<rparr>
      (Some \<lparr>name = ''log.csv'', content = ''x''\<rparr>)
   = ([Read_csv (Upload \<lparr>name = ''log.csv'', content = ''x''\<rparr>),
       Show (Error ''Error reading file: no'')], None)"
    by code_simp
  with upload_takes_precedence [THEN conjunct1,
      of "\<lparr>read_csv = (\<lambda>s. Inl ''no''), read_excel = (\<lambda>s. Inl ''no'')\<rparr>"
         "\<lparr>name = ''log.csv'', content = ''x''\<rparr>" "''https://example.org/a.csv''"]
  show ?thesis by (rule trans)
qed

section \<open>The rewriting of a Google Sheets link\<close>

lemma split_from_nonempty: "split_from sep acc s \<noteq> []"
  by (induction sep acc s rule: split_from.induct) auto

lemma split_from_absent:
  "\<not> str_contains sep s \<Longrightarrow> split_from sep acc s = [rev acc @ s]"
  by (induction sep acc s rule: split_from.induct) auto

lemma startswith_append_long:
  "length sep \<le> length s \<Longrightarrow> startswith (s @ t) sep = startswith s sep"
  by (simp add: startswith_def)

text \<open>The first piece of a split ends at the leftmost occurrence of the separator.\<close>

lemma split_from_first:
  assumes "sep \<noteq> []" and "\<not> str_contains sep (a @ butlast sep)"
  shows "split_from sep acc (a @ sep @ t) = (rev acc @ a) # split_from sep [] t"
  using assms
proof (induction a arbitrary: acc)
  case Nil
  then obtain c cs where sep: "sep = c # cs" by (cases sep) auto
  show ?case by (simp add: sep startswith_def)
next
  case (Cons x a)
  have len: "length sep \<le> length ((x # a) @ butlast sep)" by simp
  have "(x # a) @ sep @ t = ((x # a) @ butlast sep) @ (last sep # t)"
    using Cons.prems(1) by (simp add: append_butlast_last_id[symmetric] del: append_butlast_last_id)
  then have "startswith ((x # a) @ sep @ t) sep = startswith ((x # a) @ butlast sep) sep"
    using startswith_append_long[OF len] by metis
  moreover have "\<not> startswith ((x # a) @ butlast sep) sep" and "\<not> str_contains sep (a @ butlast sep)"
    using Cons.prems(2) by auto
  ultimately have no: "\<not> startswith (x # a @ sep @ t) sep" by simp
  have "split_from sep acc (x # a @ sep @ t) = split_from sep (x # acc) (a @ sep @ t)"
    using no by simp
  also have "\<dots> = (rev (x # acc) @ a) # split_from sep [] t"
    using Cons.IH[OF Cons.prems(1) \<open>\<not> str_contains sep (a @ butlast sep)\<close>] .
  finally show ?case by simp
qed

lemma hd_split_from_slash:
  "hd (split_from [CHR ''/''] acc s) = rev acc @ takeWhile (\<lambda>c. c \<noteq> CHR ''/'') s"
  by (induction "[CHR ''/'']" acc s rule: split_from.induct) (auto simp: startswith_def)

lemma takeWhile_hd_split_from:
  "sep = CHR ''/'' # sep' \<Longrightarrow>
   takeWhile (\<lambda>c. c \<noteq> CHR ''/'') (hd (split_from sep acc s))
     = takeWhile (\<lambda>c. c \<noteq> CHR ''/'') (rev acc @ s)"
proof (induction sep acc s rule: split_from.induct)
  case (1 sep acc)
  then show ?case by simp
next
  case (2 sep acc c cs)
  show ?case
  proof (cases "startswith (c # cs) sep")
    case True
    then have "c = CHR ''/''" using 2(3) by (simp add: startswith_def)
    then show ?thesis using True 2(3) by (simp add: takeWhile_append)
  next
    case False
    then show ?thesis using 2 by simp
  qed
qed

lemma sheet_id_found:
  assumes "\<not> str_contains ''/d/'' (a @ ''/d'')"
  shows "sheet_id (a @ ''/d/'' @ t) = Inr (takeWhile (\<lambda>c. c \<noteq> CHR ''/'') t)"
proof -
  have s: "split (a @ ''/d/'' @ t) ''/d/'' = a # split_from ''/d/'' [] t"
    using split_from_first[of "''/d/''" a "[]" t] assms by (simp add: split_def)
  obtain b rest where b: "split_from ''/d/'' [] t = b # rest"
    using split_from_nonempty[of "''/d/''" "[]" t] by (cases "split_from ''/d/'' [] t") auto
  obtain c cs where c: "split b ''/'' = c # cs"
    using split_from_nonempty[of "''/''" "[]" b] by (cases "split b ''/''") (auto simp: split_def)
  have "c = hd (split_from ''/'' [] b)" using c by (simp add: split_def)
  also have "\<dots> = takeWhile (\<lambda>c. c \<noteq> CHR ''/'') b" by (simp add: hd_split_from_slash)
  also have "b = hd (split_from ''/d/'' [] t)" using b by simp
  also have "takeWhile (\<lambda>c. c \<noteq> CHR ''/'') (hd (split_from ''/d/'' [] t)) = takeWhile (\<lambda>c. c \<noteq> CHR ''/'') t"
    using takeWhile_hd_split_from[of "''/d/''" "''d/''" "[]" t] by simp
  finally have "c = takeWhile (\<lambda>c. c \<noteq> CHR ''/'') t" .
  moreover have "sheet_id (a @ ''/d/'' @ t) = Inr c"
    by (simp only: sheet_id_def s b c list.case)
  ultimately show ?thesis by simp
qed

lemma sheet_id_absent:
  "\<not> str_contains ''/d/'' url \<Longrightarrow> sheet_id url = Inl IndexError"
  by (simp add: sheet_id_def split_def split_from_absent)

text \<open>
  Claim C8. The link of the specification's example is rewritten to its CSV export
  address. In general, for a link that (trimmed, as the loader first does) has
  \<^verbatim>\<open>docs.google.com\<close> and \<^verbatim>\<open>/edit\<close> in it: when \<open>a\<close> is the text before the
  leftmost \<^verbatim>\<open>/d/\<close> and \<open>t\<close> the text after it, the address read is the export
  address of the id that runs from the start of \<open>t\<close> to its first \<^verbatim>\<open>/\<close>; when the
  link has no \<^verbatim>\<open>/d/\<close> the trimmed link is read as it is. No case raises: the
  function is total, and the loader reads exactly that address, as CSV or Excel.
\<close>

theorem sheets_url_rewrite:
  "sheets_export_url ''https://docs.google.com/spreadsheets/d/ABC123/edit#gid=0''
     = ''https://docs.google.com/spreadsheets/d/ABC123/export?format=csv''
   \<and> (str_contains ''docs.google.com'' (strip url) \<and> str_contains ''/edit'' (strip url) \<longrightarrow>
        (\<forall>a t. strip url = a @ ''/d/'' @ t \<and> \<not> str_contains ''/d/'' (a @ ''/d'') \<longrightarrow>
           sheets_export_url url
             = ''https://docs.google.com/spreadsheets/d/'' @ takeWhile (\<lambda>c. c \<noteq> CHR ''/'') t
                 @ ''/export?format=csv'')
        \<and> (\<not> str_contains ''/d/'' (strip url) \<longrightarrow> sheets_export_url url = strip url))
   \<and> (url \<noteq> [] \<longrightarrow>
        hd (fst (load_data_from_url e url)) = Read_csv (Link (sheets_export_url url))
        \<or> hd (fst (load_data_from_url e url)) = Read_excel (Link (sheets_export_url url)))"
proof (intro conjI impI allI)
  show "sheets_export_url ''https://docs.google.com/spreadsheets/d/ABC123/edit#gid=0''
     = ''https://docs.google.com/spreadsheets/d/ABC123/export?format=csv''"
    by code_simp
next
  fix a t
  assume p: "str_contains ''docs.google.com'' (strip url) \<and> str_contains ''/edit'' (strip url)"
    and d: "strip url = a @ ''/d/'' @ t \<and> \<not> str_contains ''/d/'' (a @ ''/d'')"
  have "sheet_id (strip url) = Inr (takeWhile (\<lambda>c. c \<noteq> CHR ''/'') t)"
    using d sheet_id_found[of a t] by simp
  then show "sheets_export_url url
             = ''https://docs.google.com/spreadsheets/d/'' @ takeWhile (\<lambda>c. c \<noteq> CHR ''/'') t
                 @ ''/export?format=csv''"
    using p by (simp add: sheets_export_url_def Let_def)
next
  assume p: "str_contains ''docs.google.com'' (strip url) \<and> str_contains ''/edit'' (strip url)"
    and d: "\<not> str_contains ''/d/'' (strip url)"
  show "sheets_export_url url = strip url"
    using p sheet_id_absent[OF d] by (simp add: sheets_export_url_def Let_def)
next
  assume "url \<noteq> []"
  then show "hd (fst (load_data_from_url e url)) = Read_csv (Link (sheets_export_url url))
        \<or> hd (fst (load_data_from_url e url)) = Read_excel (Link (sheets_export_url url))"
    by (auto simp: load_data_from_url_def Let_def reading_def split: sum.splits)
qed

theorem sheets_url_rewrite_witness:
  "str_contains ''docs.google.com'' (strip '' https://docs.google.com/spreadsheets/d/XY_9/edit '')
   \<and> str_contains ''/edit'' (strip '' https://docs.google.com/spreadsheets/d/XY_9/edit '')
   \<and> strip '' https://docs.google.com/spreadsheets/d/XY_9/edit ''
        = ''https://docs.google.com/spreadsheets'' @ ''/d/'' @ ''XY_9/edit''
   \<and> \<not> str_contains ''/d/'' (''https://docs.google.com/spreadsheets'' @ ''/d'')
   \<and> sheets_export_url '' https://docs.google.com/spreadsheets/d/XY_9/edit ''
        = ''https://docs.google.com/spreadsheets/d/'' @ takeWhile (\<lambda>c. c \<noteq> CHR ''/'') ''XY_9/edit''
            @ ''/export?format=csv''
   \<and> str_contains ''docs.google.com'' (strip ''https://docs.google.com/edit '')
   \<and> str_contains ''/edit'' (strip ''https://docs.google.com/edit '')
   \<and> \<not> str_contains ''/d/'' (strip ''https://docs.google.com/edit '')
   \<and> sheets_export_url ''https://docs.google.com/edit '' = strip ''https://docs.google.com/edit ''
   \<and> ''https://docs.google.com/edit '' \<noteq> []
   \<and> (hd (fst (load_data_from_url \<lparr>read_csv = (\<lambda>s. Inl ''no''), read_excel = (\<lambda>s. Inl ''no'')\<rparr>
              ''https://docs.google.com/edit ''))
          = Read_csv (Link (sheets_export_url ''https://docs.google.com/edit ''))
        \<or> hd (fst (load_data_from_url \<lparr>read_csv = (\<lambda>s. Inl ''no''), read_excel = (\<lambda>s. Inl ''no'')\<rparr>
              ''https://docs.google.com/edit ''))
          = Read_excel (Link (sheets_export_url ''https://docs.google.com/edit '')))"
proof -
  have h: "str_contains ''docs.google.com''
             (strip '' https://docs.google.com/spreadsheets/d/XY_9/edit '')
     \<and> str_contains ''/edit'' (strip '' https://docs.google.com/spreadsheets/d/XY_9/edit '')"
    by code_simp
  have d: "strip '' https://docs.google.com/spreadsheets/d/XY_9/edit ''
        = ''https://docs.google.com/spreadsheets'' @ ''/d/'' @ ''XY_9/edit''
     \<and> \<not> str_contains ''/d/'' (''https://docs.google.com/spreadsheets'' @ ''/d'')"
    by code_simp
  note r = sheets_url_rewrite [of "'' https://docs.google.com/spreadsheets/d/XY_9/edit ''",
      THEN conjunct2, THEN conjunct1, THEN mp, OF h, THEN conjunct1, THEN spec, THEN spec,
      THEN mp, OF d]
  have h1: "str_contains ''docs.google.com''
             (strip '' https://docs.google.com/spreadsheets/d/XY_9/edit '')"
    and h2: "str_contains ''/edit'' (strip '' https://docs.google.com/spreadsheets/d/XY_9/edit '')"
    using h by (rule conjunct1, rule conjunct2)
  have d1: "strip '' https://docs.google.com/spreadsheets/d/XY_9/edit ''
        = ''https://docs.google.com/spreadsheets'' @ ''/d/'' @ ''XY_9/edit''"
    and d2: "\<not> str_contains ''/d/'' (''https://docs.google.com/spreadsheets'' @ ''/d'')"
    using d by (rule conjunct1, rule conjunct2)
  have k1: "str_contains ''docs.google.com'' (strip ''https://docs.google.com/edit '')"
    by code_simp
  have k2: "str_contains ''/edit'' (strip ''https://docs.google.com/edit '')"
    by code_simp
  have k3: "\<not> str_contains ''/d/'' (strip ''https://docs.google.com/edit '')"
    by code_simp
  note s = sheets_url_rewrite [of "''https://docs.google.com/edit ''",
      THEN conjunct2, THEN conjunct1, THEN mp, OF conjI [OF k1 k2], THEN conjunct2, THEN mp, OF k3]
  have n: "''https://docs.google.com/edit '' \<noteq> []"
    by simp
  note l = sheets_url_rewrite [of "''https://docs.google.com/edit ''"
      "\<lparr>read_csv = (\<lambda>s. Inl ''no''), read_excel = (\<lambda>s. Inl ''no'')\<rparr>",
      THEN conjunct2, THEN conjunct2, THEN mp, OF n]
  from h1 h2 d1 d2 r k1 k2 k3 s n l show ?thesis by (intro conjI)
qed

section \<open>The headline metrics of the detentions dashboard\<close>

lemma str_contains_iff: "str_contains sub s \<longleftrightarrow> (\<exists>a z. s = a @ sub @ z)"
proof (induction s)
  case Nil
  then show ?case by auto
next
  case (Cons c cs)
  have "startswith (c # cs) sub \<longleftrightarrow> (\<exists>z. c # cs = sub @ z)"
    unfolding startswith_def by (metis append_eq_conv_conj append_take_drop_id)
  moreover have "(\<exists>a z. c # cs = a @ sub @ z) \<longleftrightarrow> (\<exists>z. c # cs = sub @ z) \<or> (\<exists>a z. cs = a @ sub @ z)"
  proof
    assume "\<exists>a z. c # cs = a @ sub @ z"
    then obtain a z where e: "c # cs = a @ sub @ z" by blast
    show "(\<exists>z. c # cs = sub @ z) \<or> (\<exists>a z. cs = a @ sub @ z)"
    proof (cases a)
      case Nil
      then show ?thesis using e by auto
    next
      case (Cons x a')
      then have "cs = a' @ sub @ z" using e by simp
      then show ?thesis by blast
    qed
  next
    assume "(\<exists>z. c # cs = sub @ z) \<or> (\<exists>a z. cs = a @ sub @ z)"
    then show "\<exists>a z. c # cs = a @ sub @ z"
    proof
      assume "\<exists>z. c # cs = sub @ z"
      then show ?thesis by (metis append_Nil)
    next
      assume "\<exists>a z. cs = a @ sub @ z"
      then obtain a z where "cs = a @ sub @ z" by blast
      then have "c # cs = (c # a) @ sub @ z" by simp
      then show ?thesis by blast
    qed
  qed
  ultimately show ?case using Cons.IH by simp
qed

lemma present_loose_iff:
  "present_loose c \<longleftrightarrow> (\<exists>s a z. c = Str s \<and> lower s = a @ ''present'' @ z)"
  by (cases c) (simp_all add: present_loose_def str_contains_iff)

lemma exact_imp_loose: "present_loose (Str ''Present'')"
  by code_simp

lemma and_then_shown: "and_then (shown ws) r = (ws @ fst r, snd r)"
  by (simp add: and_then_def shown_def)

lemma getitem_absent: "label \<notin> set (columns df) \<Longrightarrow> getitem df label = Inl (KeyError [label])"
proof -
  assume "label \<notin> set (columns df)"
  then have "filter (\<lambda>c. fst c = label) (cols df) = []"
    by (auto simp: columns_def filter_empty_conv)
  then show ?thesis by (simp add: getitem_def)
qed

lemma getitem_Inr_columns: "getitem df label = Inr xs \<Longrightarrow> label \<in> set (columns df)"
  using getitem_absent by fastforce

lemma detention_metrics_present:
  assumes "getitem df ''Detention Attendance'' = Inr att"
  shows "detention_metrics df =
     shown [Metric ''Total Detentions'' (Count (nrows df)),
            Metric ''Attended'' (Count (length (filter present_loose att))),
            Metric ''Attendance Rate''
              (Percent (attendance_rate (length (filter present_loose att)) (nrows df)))]"
  using assms getitem_Inr_columns[OF assms]
  by (simp add: detention_metrics_def attended_total_def bind_exn_def len_def)

lemma detention_metrics_absent:
  assumes "''Detention Attendance'' \<notin> set (columns df)"
  shows "detention_metrics df =
     shown [Metric ''Total Detentions'' (Count (nrows df)),
            Metric ''Attended'' (Count 0),
            Metric ''Attendance Rate'' (Percent 0)]"
  using assms
  by (simp add: detention_metrics_def attended_total_def attendance_rate_def len_def)


text \<open>
  Claim C2, as the code has it. For a table that is not empty (it has a row and a column)
  and has the attendance column \<open>att\<close>, the dashboard opens with the header and the
  three metrics: the number \<open>N\<close> of rows, the number \<open>K\<close> of cells of \<open>att\<close> that are
  strings with \<^verbatim>\<open>present\<close> in them in any letter case, and the rate \<open>K / N\<close>. Without
  the attendance column the two last metrics are 0. For an empty table the dashboard
  shows its notice and no metric at all, so the rate 0 of a table without rows is never
  produced.
\<close>

theorem headline_attendance:
  "(\<not> df_empty df \<and> getitem df ''Detention Attendance'' = Inr att \<longrightarrow>
      take 4 (fst (render_detentions_dashboard df)) =
        [Header ''Detentions Dashboard'',
         Metric ''Total Detentions'' (Count (nrows df)),
         Metric ''Attended'' (Count (length (filter present_loose att))),
         Metric ''Attendance Rate''
           (Percent (of_nat (length (filter present_loose att)) / of_nat (nrows df)))])
   \<and> (\<not> df_empty df \<and> ''Detention Attendance'' \<notin> set (columns df) \<longrightarrow>
      take 4 (fst (render_detentions_dashboard df)) =
        [Header ''Detentions Dashboard'',
         Metric ''Total Detentions'' (Count (nrows df)),
         Metric ''Attended'' (Count 0),
         Metric ''Attendance Rate'' (Percent 0)])
   \<and> (df_empty df \<longrightarrow>
      render_detentions_dashboard df =
        ([Header ''Detentions Dashboard'', Info ''No detentions data available.''], None))
   \<and> (present_loose c \<longleftrightarrow> (\<exists>s a z. c = Str s \<and> lower s = a @ ''present'' @ z))"
proof (intro conjI impI)
  assume h: "\<not> df_empty df \<and> getitem df ''Detention Attendance'' = Inr att"
  then have n: "nrows df \<noteq> 0" by (simp add: df_empty_def)
  show "take 4 (fst (render_detentions_dashboard df)) =
        [Header ''Detentions Dashboard'',
         Metric ''Total Detentions'' (Count (nrows df)),
         Metric ''Attended'' (Count (length (filter present_loose att))),
         Metric ''Attendance Rate''
           (Percent (of_nat (length (filter present_loose att)) / of_nat (nrows df)))]"
    using h n detention_metrics_present[of df att]
    by (simp add: render_detentions_dashboard_def and_then_shown attendance_rate_def)
next
  assume h: "\<not> df_empty df \<and> ''Detention Attendance'' \<notin> set (columns df)"
  show "take 4 (fst (render_detentions_dashboard df)) =
        [Header ''Detentions Dashboard'',
         Metric ''Total Detentions'' (Count (nrows df)),
         Metric ''Attended'' (Count 0),
         Metric ''Attendance Rate'' (Percent 0)]"
    using h detention_metrics_absent[of df]
    by (simp add: render_detentions_dashboard_def and_then_shown)
next
  assume "df_empty df"
  then show "render_detentions_dashboard df =
        ([Header ''Detentions Dashboard'', Info ''No detentions data available.''], None)"
    by (simp add: render_detentions_dashboard_def and_then_def shown_def)
next
  show "present_loose c \<longleftrightarrow> (\<exists>s a z. c = Str s \<and> lower s = a @ ''present'' @ z)"
    by (rule present_loose_iff)
qed

theorem headline_attendance_witness:
  "\<not> df_empty \<lparr>nrows = 3, cols = [(''Detention Attendance'',
        [Str ''Present'', Str ''was PRESENT late'', Str ''Absent''])]\<rparr>
   \<and> getitem \<lparr>nrows = 3, cols = [(''Detention Attendance'',
        [Str ''Present'', Str ''was PRESENT late'', Str ''Absent''])]\<rparr> ''Detention Attendance''
       = Inr [Str ''Present'', Str ''was PRESENT late'', Str ''Absent'']
   \<and> take 4 (fst (render_detentions_dashboard \<lparr>nrows = 3, cols = [(''Detention Attendance'',
        [Str ''Present'', Str ''was PRESENT late'', Str ''Absent''])]\<rparr>)) =
        [Header ''Detentions Dashboard'',
         Metric ''Total Detentions'' (Count 3),
         Metric ''Attended'' (Count 2),
         Metric ''Attendance Rate'' (Percent (2 / 3))]
   \<and> \<not> df_empty \<lparr>nrows = 2, cols = [(''Year'', [Num 7, Num 8])]\<rparr>
   \<and> ''Detention Attendance'' \<notin> set (columns \<lparr>nrows = 2, cols = [(''Year'', [Num 7, Num 8])]\<rparr>)
   \<and> take 4 (fst (render_detentions_dashboard \<lparr>nrows = 2, cols = [(''Year'', [Num 7, Num 8])]\<rparr>)) =
        [Header ''Detentions Dashboard'',
         Metric ''Total Detentions'' (Count (nrows \<lparr>nrows = 2, cols = [(''Year'', [Num 7, Num 8])]\<rparr>)),
         Metric ''Attended'' (Count 0),
         Metric ''Attendance Rate'' (Percent 0)]
   \<and> df_empty \<lparr>nrows = 0, cols = [(''Year'', [])]\<rparr>
   \<and> render_detentions_dashboard \<lparr>nrows = 0, cols = [(''Year'', [])]\<rparr> =
        ([Header ''Detentions Dashboard'', Info ''No detentions data available.''], None)"
proof -
  let ?att = "[Str ''Present'', Str ''was PRESENT late'', Str ''Absent'']"
  let ?df = "\<lparr>nrows = 3, cols = [(''Detention Attendance'', ?att)]\<rparr>"
  let ?df2 = "\<lparr>nrows = 2, cols = [(''Year'', [Num 7, Num 8])]\<rparr>"
  let ?df3 = "\<lparr>nrows = 0, cols = [(''Year'', [])]\<rparr>"
  have a1: "\<not> df_empty ?df"
    by code_simp
  have a2: "getitem ?df ''Detention Attendance'' = Inr ?att"
    by code_simp
  have k: "length (filter present_loose ?att) = 2"
    by code_simp
  note r = headline_attendance [of ?df ?att, THEN conjunct1, THEN mp, OF conjI [OF a1 a2]]
  have r1: "take 4 (fst (render_detentions_dashboard ?df)) =
        [Header ''Detentions Dashboard'',
         Metric ''Total Detentions'' (Count 3),
         Metric ''Attended'' (Count 2),
         Metric ''Attendance Rate'' (Percent (2 / 3))]"
    using r unfolding k by simp
  have b1: "\<not> df_empty ?df2"
    by code_simp
  have b2: "''Detention Attendance'' \<notin> set (columns ?df2)"
    by code_simp
  note r2 = headline_attendance [of ?df2, THEN conjunct2, THEN conjunct1, THEN mp,
      OF conjI [OF b1 b2]]
  have c1: "df_empty ?df3"
    by code_simp
  note r3 = headline_attendance [of ?df3, THEN conjunct2, THEN conjunct2, THEN conjunct1,
      THEN mp, OF c1]
  from a1 a2 r1 b1 b2 r2 c1 r3 show ?thesis by (intro conjI)
qed

text \<open>
  The claim as stated fails at a table without rows: no attendance rate is shown for
  it, only the notice.
\<close>

theorem empty_table_has_no_metrics:
  "render_detentions_dashboard \<lparr>nrows = 0, cols = [(''Detention Attendance'', [])]\<rparr>
     = ([Header ''Detentions Dashboard'', Info ''No detentions data available.''], None)"
  by code_simp

section \<open>Breakdown by category\<close>

lemma sum_list_indicator:
  "distinct ks \<Longrightarrow>
   sum_list (map (\<lambda>k. if a = k \<and> q then (1::nat) else 0) ks) = (if a \<in> set ks \<and> q then 1 else 0)"
  by (induction ks) auto

lemma sum_list_group_sizes:
  "distinct ks \<Longrightarrow>
   sum_list (map (\<lambda>k. length (filter (\<lambda>z. f z = k \<and> Q z) zs)) ks)
     = length (filter (\<lambda>z. f z \<in> set ks \<and> Q z) zs)"
proof (induction zs)
  case Nil
  then show ?case by simp
next
  case (Cons z zs)
  have "sum_list (map (\<lambda>k. length (filter (\<lambda>p. f p = k \<and> Q p) (z # zs))) ks)
      = sum_list (map (\<lambda>k. (if f z = k \<and> Q z then 1 else 0)
                           + length (filter (\<lambda>p. f p = k \<and> Q p) zs)) ks)"
    by (rule arg_cong[where f = sum_list]) (rule map_cong, auto)
  also have "\<dots> = (if f z \<in> set ks \<and> Q z then 1 else 0)
                   + length (filter (\<lambda>p. f p \<in> set ks \<and> Q p) zs)"
    using Cons by (simp add: sum_list_addf sum_list_indicator)
  finally show ?case by simp
qed

lemma group_keys_set: "set (group_keys ks) = set ks - {NA}"
  by (auto simp: group_keys_def)

lemma group_keys_distinct: "distinct (group_keys ks)"
  by (simp add: group_keys_def)

lemma filter_group:
  "filter P (group ks vs k) = map snd (filter (\<lambda>p. fst p = k \<and> P (snd p)) (zip ks vs))"
  by (simp add: group_def filter_map o_def conj_commute)

text \<open>The sizes of the groups add up to the number of rows whose key is not missing.\<close>

lemma sum_list_groups:
  "sum_list (map (\<lambda>k. length (filter P (group ks vs k))) (group_keys ks))
     = length (filter (\<lambda>p. fst p \<noteq> NA \<and> P (snd p)) (zip ks vs))"
proof -
  have "sum_list (map (\<lambda>k. length (filter P (group ks vs k))) (group_keys ks))
      = sum_list (map (\<lambda>k. length (filter (\<lambda>p. fst p = k \<and> P (snd p)) (zip ks vs)))
          (group_keys ks))"
    by (simp add: filter_group)
  also have "\<dots> = length (filter (\<lambda>p. fst p \<in> set (group_keys ks) \<and> P (snd p)) (zip ks vs))"
    by (rule sum_list_group_sizes) (rule group_keys_distinct)
  also have "filter (\<lambda>p. fst p \<in> set (group_keys ks) \<and> P (snd p)) (zip ks vs)
      = filter (\<lambda>p. fst p \<noteq> NA \<and> P (snd p)) (zip ks vs)"
    by (rule filter_cong) (auto simp: group_keys_set dest: set_zip_leftD)
  finally show ?thesis .
qed

lemma agg_detentions_Inr:
  assumes "agg_detentions df ks = Inr b"
  obtains st att where "getitem df ''Student'' = Inr st"
    and "getitem df ''Detention Attendance'' = Inr att"
    and "map key b = group_keys ks"
    and "map Issued b = map (\<lambda>k. count (group ks st k)) (group_keys ks)"
    and "map Attended b = map (\<lambda>k. eq_Present_sum (group ks att k)) (group_keys ks)"
  using assms
  by (auto simp: agg_detentions_def bind_exn_def Let_def o_def split: list.splits sum.splits)

lemma getitem_length:
  assumes "wf_frame df" and "getitem df label = Inr xs"
  shows "length xs = nrows df"
proof -
  from assms(2) obtain c where c: "filter (\<lambda>c. fst c = label) (cols df) = [c]" and x: "xs = snd c"
    by (auto simp: getitem_def split: list.splits)
  have "c \<in> set (filter (\<lambda>c. fst c = label) (cols df))" by (simp add: c)
  then have "c \<in> set (cols df)" by simp
  then show ?thesis using assms(1) x by (simp add: wf_frame_def list_all_iff)
qed

lemma sum_list_sort_key:
  "sum_list (map g (sort_key f xs)) = sum_list (map g xs)" for g :: "'a \<Rightarrow> nat"
proof -
  have ins: "sum_list (map g (insort_key f x ys)) = g x + sum_list (map g ys)" for x ys
    by (induction ys) auto
  show ?thesis by (induction xs) (auto simp: ins)
qed

lemma value_counts_sum:
  "sum_list (map snd (value_counts xs)) = length (filter (\<lambda>x. x \<noteq> NA) xs)"
proof -
  let ?K = "rev (remdups (rev (filter (\<lambda>x. x \<noteq> NA) xs)))"
  have d: "distinct ?K" by simp
  have s: "set ?K = set xs - {NA}" by auto
  have "sum_list (map snd (value_counts xs))
      = sum_list (map (\<lambda>k. length (filter (\<lambda>x. x = k \<and> True) xs)) ?K)"
    by (simp add: value_counts_def sum_list_sort_key o_def)
  also have "\<dots> = length (filter (\<lambda>x. x \<in> set ?K \<and> True) xs)"
    using sum_list_group_sizes[OF d, of "\<lambda>x. x" "\<lambda>x. True" xs] by simp
  also have "filter (\<lambda>x. x \<in> set ?K \<and> True) xs = filter (\<lambda>x. x \<noteq> NA) xs"
    by (rule filter_cong) (auto simp: s)
  finally show ?thesis .
qed

lemma value_counts_keys: "set (map fst (value_counts xs)) = set xs - {NA}"
  by (auto simp: value_counts_def image_iff)

lemma value_counts_distinct: "distinct (map fst (value_counts xs))"
proof -
  let ?L = "map (\<lambda>k. (k, length (filter (\<lambda>x. x = k) xs)))
       (rev (remdups (rev (filter (\<lambda>x. x \<noteq> NA) xs))))"
  have "distinct (map fst ?L)"
    by (simp add: o_def)
  then have "distinct ?L \<and> inj_on fst (set ?L)"
    by (simp only: distinct_map)
  then have "distinct (map fst (sort_key (\<lambda>p. - int (snd p)) ?L))"
    by (simp only: distinct_map set_sort distinct_sort)
  then show ?thesis
    by (simp only: value_counts_def)
qed

lemma length_filter_mono:
  "(\<And>x. x \<in> set xs \<Longrightarrow> P x \<Longrightarrow> Q x) \<Longrightarrow> length (filter P xs) \<le> length (filter Q xs)"
  by (induction xs) auto

lemma attended_groups_le:
  "sum_list (map (\<lambda>k. eq_Present_sum (group ks att k)) (group_keys ks))
     \<le> length (filter present_loose att)"
proof -
  have "sum_list (map (\<lambda>k. eq_Present_sum (group ks att k)) (group_keys ks))
      = length (filter (\<lambda>p. fst p \<noteq> NA \<and> snd p = Str ''Present'') (zip ks att))"
    unfolding eq_Present_sum_def by (rule sum_list_groups)
  also have "\<dots> \<le> length (filter (\<lambda>p. present_loose (snd p)) (zip ks att))"
    by (rule length_filter_mono) (auto simp: exact_imp_loose)
  also have "\<dots> = length (filter present_loose (map snd (zip ks att)))"
    by (simp add: filter_map o_def)
  also have "\<dots> = length (filter present_loose (take (length ks) att))"
    by (simp add: map_snd_zip_take min_def)
  also have "\<dots> \<le> length (filter present_loose (take (length ks) att @ drop (length ks) att))"
    by (simp only: filter_append length_append)
  finally show ?thesis by simp
qed

text \<open>
  Claim C4. For a detentions table with an attendance column \<open>att\<close> and whose year
  breakdown is produced, the headline count is the number of cells of \<open>att\<close> that
  contain \<^verbatim>\<open>present\<close> in any letter case, the \<^verbatim>\<open>Attended\<close> of each year is the
  number of cells of its group equal to \<^verbatim>\<open>Present\<close>, and the sum of the latter over
  the years is at most the former. The two disagree on the one-row table whose attendance
  is \<^verbatim>\<open>present\<close> in lower case: the headline counts 1, the year counts 0.
\<close>

theorem attended_loose_and_exact:
  "(getitem df ''Detention Attendance'' = Inr att \<and> getitem df ''Year'' = Inr ks
      \<and> year_breakdown df = Inr b \<longrightarrow>
        attended_total df = Inr (length (filter present_loose att))
      \<and> map Attended b
          = map (\<lambda>k. length (filter (\<lambda>v. v = Str ''Present'') (group ks att k))) (group_keys ks)
      \<and> sum_list (map Attended b) \<le> length (filter present_loose att))
   \<and> (present_loose c \<longleftrightarrow> (\<exists>s a z. c = Str s \<and> lower s = a @ ''present'' @ z))
   \<and> attended_total \<lparr>nrows = 1, cols = [(''Student'', [Str ''Ann'']), (''Year'', [Num 7]),
         (''Detention Attendance'', [Str ''present''])]\<rparr> = Inr 1
   \<and> year_breakdown \<lparr>nrows = 1, cols = [(''Student'', [Str ''Ann'']), (''Year'', [Num 7]),
         (''Detention Attendance'', [Str ''present''])]\<rparr>
       = Inr [\<lparr>key = Num 7, Issued = 1, Attended = 0, Attendance_Rate = Ratio 0\<rparr>]"
proof (intro conjI impI)
  assume h: "getitem df ''Detention Attendance'' = Inr att \<and> getitem df ''Year'' = Inr ks
      \<and> year_breakdown df = Inr b"
  then have agg: "agg_detentions df ks = Inr b"
    by (auto simp: year_breakdown_def bind_exn_def)
  from agg h have m: "map Attended b = map (\<lambda>k. eq_Present_sum (group ks att k)) (group_keys ks)"
    by (auto elim!: agg_detentions_Inr)
  show "attended_total df = Inr (length (filter present_loose att))"
    using h getitem_Inr_columns[of df "''Detention Attendance''" att]
    by (simp add: attended_total_def bind_exn_def)
  show "map Attended b
          = map (\<lambda>k. length (filter (\<lambda>v. v = Str ''Present'') (group ks att k))) (group_keys ks)"
    using m by (simp add: eq_Present_sum_def)
  show "sum_list (map Attended b) \<le> length (filter present_loose att)"
    unfolding m by (rule attended_groups_le)
next
  show "present_loose c \<longleftrightarrow> (\<exists>s a z. c = Str s \<and> lower s = a @ ''present'' @ z)"
    by (rule present_loose_iff)
next
  show "attended_total \<lparr>nrows = 1, cols = [(''Student'', [Str ''Ann'']), (''Year'', [Num 7]),
         (''Detention Attendance'', [Str ''present''])]\<rparr> = Inr 1"
    by code_simp
next
  show "year_breakdown \<lparr>nrows = 1, cols = [(''Student'', [Str ''Ann'']), (''Year'', [Num 7]),
         (''Detention Attendance'', [Str ''present''])]\<rparr>
       = Inr [\<lparr>key = Num 7, Issued = 1, Attended = 0, Attendance_Rate = Ratio 0\<rparr>]"
    by code_simp
qed


theorem attended_loose_and_exact_witness:
  "getitem \<lparr>nrows = 3, cols = [(''Student'', [Str ''Ann'', Str ''Bo'', Str ''Cy'']),
        (''Year'', [Num 7, Num 7, NA]),
        (''Detention Attendance'', [Str ''Present'', Str ''present'', Str ''Present''])]\<rparr>
      ''Detention Attendance'' = Inr [Str ''Present'', Str ''present'', Str ''Present'']
   \<and> getitem \<lparr>nrows = 3, cols = [(''Student'', [Str ''Ann'', Str ''Bo'', Str ''Cy'']),
        (''Year'', [Num 7, Num 7, NA]),
        (''Detention Attendance'', [Str ''Present'', Str ''present'', Str ''Present''])]\<rparr>
      ''Year'' = Inr [Num 7, Num 7, NA]
   \<and> year_breakdown \<lparr>nrows = 3, cols = [(''Student'', [Str ''Ann'', Str ''Bo'', Str ''Cy'']),
        (''Year'', [Num 7, Num 7, NA]),
        (''Detention Attendance'', [Str ''Present'', Str ''present'', Str ''Present''])]\<rparr>
      = Inr [\<lparr>key = Num 7, Issued = 2, Attended = 1, Attendance_Rate = Ratio (1 / 2)\<rparr>]
   \<and> attended_total \<lparr>nrows = 3, cols = [(''Student'', [Str ''Ann'', Str ''Bo'', Str ''Cy'']),
        (''Year'', [Num 7, Num 7, NA]),
        (''Detention Attendance'', [Str ''Present'', Str ''present'', Str ''Present''])]\<rparr>
      = Inr (length (filter present_loose [Str ''Present'', Str ''present'', Str ''Present'']))"
proof -
  let ?df = "\<lparr>nrows = 3, cols = [(''Student'', [Str ''Ann'', Str ''Bo'', Str ''Cy'']),
        (''Year'', [Num 7, Num 7, NA]),
        (''Detention Attendance'', [Str ''Present'', Str ''present'', Str ''Present''])]\<rparr>"
  have h1: "getitem ?df ''Detention Attendance''
      = Inr [Str ''Present'', Str ''present'', Str ''Present'']"
    by code_simp
  have h2: "getitem ?df ''Year'' = Inr [Num 7, Num 7, NA]"
    by code_simp
  have h3: "year_breakdown ?df
         = Inr [\<lparr>key = Num 7, Issued = 2, Attended = 1, Attendance_Rate = Ratio (1 / 2)\<rparr>]"
    by code_simp
  note h = conjI [OF h1 conjI [OF h2 h3]]
  note r = attended_loose_and_exact [THEN conjunct1, THEN mp, OF h, THEN conjunct1]
  from h1 h2 h3 r show ?thesis by (intro conjI)
qed

text \<open>
  Claim C3 says that a missing category is a group of its own. It is not: of two rows, one
  with a missing year (or type), the breakdown has the single group of the other row, and
  the counts sum to 1, not 2.
\<close>

theorem null_category_not_grouped:
  "year_breakdown \<lparr>nrows = 2, cols = [(''Student'', [Str ''Ann'', Str ''Bo'']),
        (''Year'', [Num 7, NA]),
        (''Detention Attendance'', [Str ''Present'', Str ''Present''])]\<rparr>
     = Inr [\<lparr>key = Num 7, Issued = 1, Attended = 1, Attendance_Rate = Ratio 1\<rparr>]
   \<and> type_counts \<lparr>nrows = 2, cols = [(''Type'', [Str ''Fight'', NA])]\<rparr>
     = Inr [(Str ''Fight'', 1)]"
  by code_simp

text \<open>
  Claim C3, as the code has it. The year breakdown has one group for each distinct year
  that is not missing, and none for the missing ones; the \<^verbatim>\<open>Issued\<close> of a group counts
  the rows of that year whose \<^verbatim>\<open>Student\<close> is not missing, so the counts sum to the
  number of rows with neither the year nor the student missing. The type breakdown of the
  incidents has one row for each distinct type that is not missing, and its counts sum to
  the number of rows whose type is not missing.
\<close>

theorem category_breakdown_counts:
  "(wf_frame df \<and> getitem df ''Year'' = Inr ks \<and> getitem df ''Student'' = Inr st
      \<and> year_breakdown df = Inr b \<longrightarrow>
        map key b = group_keys ks
      \<and> set (map key b) = set ks - {NA}
      \<and> distinct (map key b)
      \<and> map Issued b = map (\<lambda>k. count (group ks st k)) (group_keys ks)
      \<and> length (zip ks st) = nrows df
      \<and> sum_list (map Issued b)
          = length (filter (\<lambda>p. fst p \<noteq> NA \<and> snd p \<noteq> NA) (zip ks st)))
   \<and> (getitem df' ''Type'' = Inr ts \<longrightarrow>
        type_counts df' = Inr (value_counts ts)
      \<and> set (map fst (value_counts ts)) = set ts - {NA}
      \<and> distinct (map fst (value_counts ts))
      \<and> sum_list (map snd (value_counts ts)) = length (filter (\<lambda>x. x \<noteq> NA) ts))"
proof (intro conjI impI)
  assume h: "wf_frame df \<and> getitem df ''Year'' = Inr ks \<and> getitem df ''Student'' = Inr st
      \<and> year_breakdown df = Inr b"
  then have agg: "agg_detentions df ks = Inr b"
    by (auto simp: year_breakdown_def bind_exn_def)
  from agg h show k: "map key b = group_keys ks"
    and i: "map Issued b = map (\<lambda>k. count (group ks st k)) (group_keys ks)"
    by (auto elim!: agg_detentions_Inr)
  show "set (map key b) = set ks - {NA}"
    unfolding k by (rule group_keys_set)
  show "distinct (map key b)"
    unfolding k by (rule group_keys_distinct)
  show "length (zip ks st) = nrows df"
    using h getitem_length[of df "''Year''" ks] getitem_length[of df "''Student''" st] by simp
  show "sum_list (map Issued b)
          = length (filter (\<lambda>p. fst p \<noteq> NA \<and> snd p \<noteq> NA) (zip ks st))"
    unfolding i count_def by (rule sum_list_groups)
next
  assume "getitem df' ''Type'' = Inr ts"
  then show "type_counts df' = Inr (value_counts ts)"
    by (simp add: type_counts_def bind_exn_def)
next
  show "set (map fst (value_counts ts)) = set ts - {NA}"
    by (rule value_counts_keys)
next
  show "distinct (map fst (value_counts ts))"
    by (rule value_counts_distinct)
next
  show "sum_list (map snd (value_counts ts)) = length (filter (\<lambda>x. x \<noteq> NA) ts)"
    by (rule value_counts_sum)
qed

theorem category_breakdown_counts_witness:
  "wf_frame \<lparr>nrows = 3, cols = [(''Student'', [Str ''Ann'', NA, Str ''Cy'']),
        (''Year'', [Num 7, Num 7, NA]),
        (''Detention Attendance'', [Str ''Present'', Str ''present'', Str ''Present''])]\<rparr>
   \<and> getitem \<lparr>nrows = 3, cols = [(''Student'', [Str ''Ann'', NA, Str ''Cy'']),
        (''Year'', [Num 7, Num 7, NA]),
        (''Detention Attendance'', [Str ''Present'', Str ''present'', Str ''Present''])]\<rparr>
      ''Year'' = Inr [Num 7, Num 7, NA]
   \<and> getitem \<lparr>nrows = 3, cols = [(''Student'', [Str ''Ann'', NA, Str ''Cy'']),
        (''Year'', [Num 7, Num 7, NA]),
        (''Detention Attendance'', [Str ''Present'', Str ''present'', Str ''Present''])]\<rparr>
      ''Student'' = Inr [Str ''Ann'', NA, Str ''Cy'']
   \<and> year_breakdown \<lparr>nrows = 3, cols = [(''Student'', [Str ''Ann'', NA, Str ''Cy'']),
        (''Year'', [Num 7, Num 7, NA]),
        (''Detention Attendance'', [Str ''Present'', Str ''present'', Str ''Present''])]\<rparr>
      = Inr [\<lparr>key = Num 7, Issued = 1, Attended = 1, Attendance_Rate = Ratio 1\<rparr>]
   \<and> sum_list (map Issued [\<lparr>key = Num 7, Issued = 1, Attended = 1, Attendance_Rate = Ratio 1\<rparr>])
      = length (filter (\<lambda>p. fst p \<noteq> NA \<and> snd p \<noteq> NA)
          (zip [Num 7, Num 7, NA] [Str ''Ann'', NA, Str ''Cy'']))
   \<and> getitem \<lparr>nrows = 3, cols = [(''Type'', [Str ''Fight'', NA, Str ''Fight''])]\<rparr> ''Type''
      = Inr [Str ''Fight'', NA, Str ''Fight'']
   \<and> type_counts \<lparr>nrows = 3, cols = [(''Type'', [Str ''Fight'', NA, Str ''Fight''])]\<rparr>
      = Inr (value_counts [Str ''Fight'', NA, Str ''Fight''])
   \<and> value_counts [Str ''Fight'', NA, Str ''Fight''] = [(Str ''Fight'', 2)]"
proof -
  let ?df = "\<lparr>nrows = 3, cols = [(''Student'', [Str ''Ann'', NA, Str ''Cy'']),
        (''Year'', [Num 7, Num 7, NA]),
        (''Detention Attendance'', [Str ''Present'', Str ''present'', Str ''Present''])]\<rparr>"
  let ?df' = "\<lparr>nrows = 3, cols = [(''Type'', [Str ''Fight'', NA, Str ''Fight''])]\<rparr>"
  have h1: "wf_frame ?df"
    by code_simp
  have h2: "getitem ?df ''Year'' = Inr [Num 7, Num 7, NA]"
    by code_simp
  have h3: "getitem ?df ''Student'' = Inr [Str ''Ann'', NA, Str ''Cy'']"
    by code_simp
  have h4: "year_breakdown ?df
         = Inr [\<lparr>key = Num 7, Issued = 1, Attended = 1, Attendance_Rate = Ratio 1\<rparr>]"
    by code_simp
  note h = conjI [OF h1 conjI [OF h2 conjI [OF h3 h4]]]
  note r = category_breakdown_counts [THEN conjunct1, THEN mp, OF h, THEN conjunct2,
      THEN conjunct2, THEN conjunct2, THEN conjunct2, THEN conjunct2]
  have g: "getitem ?df' ''Type'' = Inr [Str ''Fight'', NA, Str ''Fight'']"
    by code_simp
  note r' = category_breakdown_counts [THEN conjunct2, THEN mp, OF g, THEN conjunct1]
  have v: "value_counts [Str ''Fight'', NA, Str ''Fight''] = [(Str ''Fight'', 2)]"
    by code_simp
  from h1 h2 h3 h4 r g r' v show ?thesis by (intro conjI)
qed

section \<open>What the normalizers do to their argument\<close>

lemma objs_put: "objs (put h r df) r' = (if r' = r then df else objs h r')"
  by (simp add: put_def)

lemma parse_dates_frame:
  "r' \<noteq> r \<Longrightarrow> objs (fst (parse_dates parse ls h r)) r' = objs h r'"
  by (induction ls arbitrary: h) (auto simp: objs_put split: sum.splits)

lemma prepare_oncall_frame:
  assumes "r < fresh h"
  shows "objs (fst (prepare_oncall parse h df)) r = objs h r"
  using assms
  by (auto simp: prepare_oncall_def Let_def alloc_def put_def split: sum.splits)

lemma prepare_detentions_frame:
  assumes "r < fresh h"
  shows "objs (fst (prepare_detentions parse h df)) r
           = (if r = df then strip_columns (objs h df) else objs h r)"
proof -
  let ?h1 = "put h df (strip_columns (objs h df))"
  obtain h2 df2 where a2: "alloc ?h1 (rename (objs ?h1 df) rename_map_detentions) = (h2, df2)"
    by (cases "alloc ?h1 (rename (objs ?h1 df) rename_map_detentions)")
  have df2: "df2 = fresh h" and f2: "fresh h2 = Suc (fresh h)"
    and o2: "\<And>x. x < fresh h \<Longrightarrow> objs h2 x = objs ?h1 x"
    using a2 by (auto simp: alloc_def put_def)
  obtain h3 df3 where a3:
    "(if ''Detention Attendance'' \<notin> set (columns (objs h2 df2))
      then (case attendance_candidates (objs h2 df2) of
              [] \<Rightarrow> (h2, df2)
            | c # cs \<Rightarrow> alloc h2 (rename (objs h2 df2) [(c, ''Detention Attendance'')]))
      else (h2, df2)) = (h3, df3)"
    by (cases "(if ''Detention Attendance'' \<notin> set (columns (objs h2 df2))
      then (case attendance_candidates (objs h2 df2) of
              [] \<Rightarrow> (h2, df2)
            | c # cs \<Rightarrow> alloc h2 (rename (objs h2 df2) [(c, ''Detention Attendance'')]))
      else (h2, df2))")
  have df3: "fresh h \<le> df3" and o3: "\<And>x. x < fresh h \<Longrightarrow> objs h3 x = objs h2 x"
    using a3 df2 f2 by (auto simp: alloc_def split: if_splits list.splits)
  obtain h4 e where a4: "parse_dates parse [''Issued Date'', ''Detention Date''] h3 df3 = (h4, e)"
    by (cases "parse_dates parse [''Issued Date'', ''Detention Date''] h3 df3")
  have "r \<noteq> df3" using assms df3 by simp
  then have o4: "objs h4 r = objs h3 r"
    using parse_dates_frame[of r df3 parse "[''Issued Date'', ''Detention Date'']" h3] a4 by simp
  have "fst (prepare_detentions parse h df) = h4"
    by (simp only: prepare_detentions_def Let_def a2 a3 a4 prod.case fst_conv)
  then show ?thesis
    using o4 o3[OF assms] o2[OF assms] by (simp add: objs_put)
qed

lemma strip_columns_frame:
  "nrows (strip_columns x) = nrows x"
  "map snd (cols (strip_columns x)) = map snd (cols x)"
  "columns (strip_columns x) = map strip (columns x)"
  by (simp_all add: strip_columns_def columns_def o_def)

text \<open>
  Claim C9, as the code has it. The incidents normalizer leaves every object that
  existed before the call as it was, its argument included. The detentions normalizer
  leaves every other object as it was and leaves its argument with the same rows and
  the same cells, but with every column name trimmed: the assignment to
  \<^verbatim>\<open>df.columns\<close> is made on the caller's table, before the first copy.
\<close>

theorem normalizers_and_their_argument:
  "(r < fresh h \<longrightarrow> objs (fst (prepare_oncall parse h df)) r = objs h r)
   \<and> (df < fresh h \<longrightarrow>
        objs (fst (prepare_detentions parse h df)) df = strip_columns (objs h df))
   \<and> (r < fresh h \<and> r \<noteq> df \<longrightarrow> objs (fst (prepare_detentions parse h df)) r = objs h r)
   \<and> nrows (strip_columns x) = nrows x
   \<and> map snd (cols (strip_columns x)) = map snd (cols x)
   \<and> columns (strip_columns x) = map strip (columns x)"
  by (simp add: prepare_oncall_frame prepare_detentions_frame strip_columns_frame)

text \<open>
  The claim as stated fails for the detentions normalizer: after the call, the column
  \<^verbatim>\<open>" Year "\<close> of the table passed in is named \<^verbatim>\<open>"Year"\<close>.
\<close>

theorem detentions_argument_relabelled:
  "objs (fst (alloc empty_store \<lparr>nrows = 1, cols = [('' Year '', [Num 7])]\<rparr>)) 0
     = \<lparr>nrows = 1, cols = [('' Year '', [Num 7])]\<rparr>
   \<and> objs (fst (prepare_detentions (\<lambda>xs c. None)
        (fst (alloc empty_store \<lparr>nrows = 1, cols = [('' Year '', [Num 7])]\<rparr>)) 0)) 0
     = \<lparr>nrows = 1, cols = [(''Year'', [Num 7])]\<rparr>"
  by code_simp

theorem normalizers_and_their_argument_witness:
  "(1::nat) < fresh (fst (alloc (fst (alloc empty_store
        \<lparr>nrows = 1, cols = [('' Year '', [Num 7])]\<rparr>))
        \<lparr>nrows = 1, cols = [('' Status '', [Str ''Open''])]\<rparr>))
   \<and> (0::nat) < fresh (fst (alloc (fst (alloc empty_store
        \<lparr>nrows = 1, cols = [('' Year '', [Num 7])]\<rparr>))
        \<lparr>nrows = 1, cols = [('' Status '', [Str ''Open''])]\<rparr>))
   \<and> objs (fst (prepare_oncall (\<lambda>xs c. None)
        (fst (alloc (fst (alloc empty_store
          \<lparr>nrows = 1, cols = [('' Year '', [Num 7])]\<rparr>))
          \<lparr>nrows = 1, cols = [('' Status '', [Str ''Open''])]\<rparr>)) 0)) 1
     = objs (fst (alloc (fst (alloc empty_store
          \<lparr>nrows = 1, cols = [('' Year '', [Num 7])]\<rparr>))
          \<lparr>nrows = 1, cols = [('' Status '', [Str ''Open''])]\<rparr>)) 1
   \<and> objs (fst (prepare_detentions (\<lambda>xs c. None)
        (fst (alloc (fst (alloc empty_store
          \<lparr>nrows = 1, cols = [('' Year '', [Num 7])]\<rparr>))
          \<lparr>nrows = 1, cols = [('' Status '', [Str ''Open''])]\<rparr>)) 0)) 0
     = strip_columns (objs (fst (alloc (fst (alloc empty_store
          \<lparr>nrows = 1, cols = [('' Year '', [Num 7])]\<rparr>))
          \<lparr>nrows = 1, cols = [('' Status '', [Str ''Open''])]\<rparr>)) 0)
   \<and> objs (fst (prepare_detentions (\<lambda>xs c. None)
        (fst (alloc (fst (alloc empty_store
          \<lparr>nrows = 1, cols = [('' Year '', [Num 7])]\<rparr>))
          \<lparr>nrows = 1, cols = [('' Status '', [Str ''Open''])]\<rparr>)) 0)) 1
     = objs (fst (alloc (fst (alloc empty_store
          \<lparr>nrows = 1, cols = [('' Year '', [Num 7])]\<rparr>))
          \<lparr>nrows = 1, cols = [('' Status '', [Str ''Open''])]\<rparr>)) 1"
proof -
  let ?h = "fst (alloc (fst (alloc empty_store
          \<lparr>nrows = 1, cols = [('' Year '', [Num 7])]\<rparr>))
          \<lparr>nrows = 1, cols = [('' Status '', [Str ''Open''])]\<rparr>)"
  have h1: "(1::nat) < fresh ?h"
    by code_simp
  have h0: "(0::nat) < fresh ?h"
    by code_simp
  have ne: "(1::nat) \<noteq> 0"
    by simp
  note t = normalizers_and_their_argument [of 1 ?h "\<lambda>xs c. None" 0]
  note r1 = t [THEN conjunct1, THEN mp, OF h1]
  note r2 = t [THEN conjunct2, THEN conjunct1, THEN mp, OF h0]
  note r3 = t [THEN conjunct2, THEN conjunct2, THEN conjunct1, THEN mp, OF conjI [OF h1 ne]]
  from h1 h0 r1 r2 r3 show ?thesis by (intro conjI)
qed

section \<open>Date columns\<close>



























section \<open>Breakdown by day\<close>

lemma mask_zip:
  "mask (map P xs) ys = map snd (filter (\<lambda>p. P (fst p)) (zip xs ys))"
proof (induction xs arbitrary: ys)
  case Nil
  then show ?case by (simp add: mask_def)
next
  case (Cons x xs)
  then show ?case by (cases ys) (auto simp: mask_def)
qed

lemma mask_same: "mask (map P xs) xs = filter P xs"
  by (induction xs) (auto simp: mask_def)

lemma getitem_map_cols:
  assumes "cols F' = map (\<lambda>c. (fst c, f (snd c))) (cols F)"
  shows "getitem F' l = (case getitem F l of Inl e \<Rightarrow> Inl e | Inr xs \<Rightarrow> Inr (f xs))"
proof -
  have "filter (\<lambda>c. fst c = l) (cols F')
      = map (\<lambda>c. (fst c, f (snd c))) (filter (\<lambda>c. fst c = l) (cols F))"
    by (simp add: assms filter_map o_def)
  then show ?thesis
    by (cases "filter (\<lambda>c. fst c = l) (cols F)" rule: list.exhaust[case_names Nil Cons])
       (auto simp: getitem_def split: list.splits)
qed

lemma dropna_Inr:
  assumes "getitem df label = Inr ds"
  shows "dropna df label
     = Inr \<lparr>nrows = length (filter (\<lambda>k. k \<noteq> NA) ds),
            cols = map (\<lambda>c. (fst c, mask (map (\<lambda>k. k \<noteq> NA) ds) (snd c))) (cols df)\<rparr>"
  using assms by (simp add: dropna_def bind_exn_def Let_def filter_map o_def)

lemma getitem_setitem_other:
  assumes "l \<noteq> l'"
  shows "getitem (setitem F l' ys) l = getitem F l"
proof -
  have "filter (\<lambda>c. fst c = l) (map (\<lambda>c. if fst c = l' then (l', ys) else c) cs)
      = filter (\<lambda>c. fst c = l) cs" for cs :: "(string \<times> cell list) list"
    using assms by (induction cs) auto
  then show ?thesis using assms by (simp add: getitem_def setitem_def)
qed

lemma getitem_setitem_same:
  assumes "getitem (setitem F l ys) l = Inr ks"
  shows "ks = ys"
proof (cases "l \<in> set (columns F)")
  case False
  then have "filter (\<lambda>c. fst c = l) (cols F) = []"
    by (auto simp: columns_def filter_empty_conv)
  then show ?thesis using assms False by (simp add: getitem_def setitem_def)
next
  case True
  let ?cs = "map (\<lambda>c. if fst c = l then (l, ys) else c) (cols F)"
  from assms True obtain c where c: "filter (\<lambda>c. fst c = l) ?cs = [c]" and k: "ks = snd c"
    by (auto simp: getitem_def setitem_def split: list.splits)
  have "c \<in> set (filter (\<lambda>c. fst c = l) ?cs)" by (simp add: c)
  then have "c = (l, ys)" by (auto split: if_splits)
  then show ?thesis using k by simp
qed

text \<open>What the table with its \<^verbatim>\<open>Date\<close> column is, when it is produced.\<close>

lemma with_date_Inr:
  assumes "with_date df label = Inr (d', ks)" and "getitem df label = Inr ds"
  shows "ks = map date_of (filter (\<lambda>x. x \<noteq> NA) ds)"
    and "list_all is_datetime (filter (\<lambda>x. x \<noteq> NA) ds)"
    and "\<And>l. l \<noteq> ''Date'' \<Longrightarrow>
           getitem d' l = (case getitem df l of Inl e \<Rightarrow> Inl e
              | Inr xs \<Rightarrow> Inr (mask (map (\<lambda>k. k \<noteq> NA) ds) xs))"
proof -
  let ?keep = "map (\<lambda>k. k \<noteq> NA) ds"
  let ?d = "\<lparr>nrows = length (filter (\<lambda>k. k \<noteq> NA) ds),
            cols = map (\<lambda>c. (fst c, mask ?keep (snd c))) (cols df)\<rparr>"
  have d: "dropna df label = Inr ?d"
    using assms(2) by (rule dropna_Inr)
  have gm: "\<And>l. getitem ?d l = (case getitem df l of Inl e \<Rightarrow> Inl e
              | Inr xs \<Rightarrow> Inr (mask ?keep xs))"
    by (rule getitem_map_cols) simp
  have g: "getitem ?d label = Inr (filter (\<lambda>x. x \<noteq> NA) ds)"
    by (simp add: gm assms(2) mask_same)
  let ?xs = "filter (\<lambda>x. x \<noteq> NA) ds"
  have b: "bind_exn (Inr x) f = f x" for x :: 'a and f :: "'a \<Rightarrow> exn + 'b"
    by (simp add: bind_exn_def)
  from assms(1) have w: "bind_exn (dt_date ?xs) (\<lambda>ds.
       let d' = setitem ?d ''Date'' ds
       in bind_exn (getitem d' ''Date'') (\<lambda>ks. Inr (d', ks))) = Inr (d', ks)"
    by (simp only: with_date_def d g b)
  then show dt: "list_all is_datetime ?xs"
    by (auto simp: bind_exn_def dt_date_def split: if_splits)
  with w have s: "d' = setitem ?d ''Date'' (map date_of ?xs)"
    and k: "getitem (setitem ?d ''Date'' (map date_of ?xs)) ''Date'' = Inr ks"
    by (auto simp: bind_exn_def dt_date_def Let_def split: sum.splits)
  from k show "ks = map date_of ?xs"
    by (rule getitem_setitem_same)
  show "\<And>l. l \<noteq> ''Date'' \<Longrightarrow>
           getitem d' l = (case getitem df l of Inl e \<Rightarrow> Inl e
              | Inr xs \<Rightarrow> Inr (mask ?keep xs))"
    using getitem_setitem_other[of _ "''Date''" ?d "map date_of ?xs"] by (simp add: s gm)
qed


lemma stamps_only:
  assumes "list_all is_datetime xs" and "NA \<notin> set xs" and "x \<in> set xs"
  obtains t where "x = Stamp t"
  using assms by (cases x) (auto simp: list_all_iff is_datetime_def)

text \<open>The keys of a grouping by date are the distinct days, in ascending order.\<close>

lemma day_keys:
  assumes "list_all is_datetime xs" and "NA \<notin> set xs"
  shows "\<exists>days. group_keys (map date_of xs) = map Day days \<and> sorted_wrt (<) days
           \<and> set days = {t div ns_per_day |t. Stamp t \<in> set xs}"
proof -
  define K where "K = group_keys (map date_of xs)"
  define days where "days = map day_number K"
  have setK: "set K = date_of ` set xs"
  proof -
    have "NA \<notin> date_of ` set xs"
    proof
      assume "NA \<in> date_of ` set xs"
      then obtain x where x: "x \<in> set xs" "date_of x = NA" by auto
      from assms x(1) obtain t where "x = Stamp t" by (rule stamps_only)
      with x(2) show False by (simp add: date_of_def)
    qed
    then show ?thesis by (simp add: K_def group_keys_set)
  qed
  have isday: "Day (day_number k) = k" if "k \<in> set K" for k
  proof -
    from that setK obtain x where x: "x \<in> set xs" "k = date_of x" by auto
    from assms x(1) obtain t where "x = Stamp t" by (rule stamps_only)
    with x(2) show ?thesis by (simp add: date_of_def day_number_def)
  qed
  have K: "K = map Day days"
  proof -
    have "map (\<lambda>k. Day (day_number k)) K = K"
      by (rule map_idI) (rule isday)
    then show ?thesis by (simp add: days_def o_def)
  qed
  have "sorted (map cell_key K)"
    by (simp add: K_def group_keys_def)
  then have "sorted (map (\<lambda>d. (3::nat, d, ([]::string))) days)"
    by (simp add: K o_def cell_key_def)
  then have "sorted_wrt (\<lambda>x y. (3::nat, x, ([]::string)) \<le> (3, y, [])) days"
    by (simp only: sorted_map)
  then have srt: "sorted days"
    by (rule sorted_wrt_mono_rel[rotated]) auto
  have "distinct K"
    by (simp add: K_def group_keys_distinct)
  then have dis: "distinct days"
    by (simp add: K distinct_map)
  have e: "Day ` set days = date_of ` set xs"
    using setK by (simp add: K)
  have sd: "set days = {t div ns_per_day |t. Stamp t \<in> set xs}"
  proof (rule set_eqI, rule iffI)
    fix d assume "d \<in> set days"
    then have "Day d \<in> date_of ` set xs" using e by blast
    then obtain x where x: "x \<in> set xs" "Day d = date_of x" by auto
    from assms x(1) obtain t where t: "x = Stamp t" by (rule stamps_only)
    with x show "d \<in> {t div ns_per_day |t. Stamp t \<in> set xs}"
      by (auto simp: date_of_def)
  next
    fix d assume "d \<in> {t div ns_per_day |t. Stamp t \<in> set xs}"
    then obtain t where t: "Stamp t \<in> set xs" "d = t div ns_per_day" by auto
    then have "Day d \<in> date_of ` set xs" by (force simp: date_of_def)
    then have "Day d \<in> Day ` set days" using e by simp
    then show "d \<in> set days" by auto
  qed
  from srt dis sd have "group_keys (map date_of xs) = map Day days \<and> sorted_wrt (<) days
           \<and> set days = {t div ns_per_day |t. Stamp t \<in> set xs}"
    using K by (simp add: strict_sorted_iff K_def)
  then show ?thesis by (rule exI)
qed

lemma zip_dates_mask:
  "zip (map f (filter P ds)) (mask (map P ds) vs)
     = map (\<lambda>p. (f (fst p), snd p)) (filter (\<lambda>p. P (fst p)) (zip ds vs))"
proof (induction ds arbitrary: vs)
  case Nil
  then show ?case by (simp add: mask_def)
next
  case (Cons d ds)
  show ?case
  proof (cases vs)
    case Nil
    then show ?thesis by (simp add: mask_def)
  next
    case (Cons v vs')
    have "mask (map P (d # ds)) (v # vs')
        = (if P d then v # mask (map P ds) vs' else mask (map P ds) vs')"
      by (simp add: mask_def)
    then show ?thesis using Cons.IH[of vs'] Cons by simp
  qed
qed

lemma length_filter_mapped:
  assumes "\<And>p. p \<in> set zs \<Longrightarrow> P (fst p) \<Longrightarrow> R (f (fst p))"
  shows "length (filter (\<lambda>p. R (fst p) \<and> Q (snd p))
            (map (\<lambda>p. (f (fst p), snd p)) (filter (\<lambda>p. P (fst p)) zs)))
       = length (filter (\<lambda>p. P (fst p) \<and> Q (snd p)) zs)"
  using assms by (induction zs) auto

lemma date_of_stamp: "is_datetime c \<Longrightarrow> c \<noteq> NA \<Longrightarrow> date_of c \<noteq> NA"
  by (cases c) (simp_all add: is_datetime_def date_of_def)

text \<open>Over the rows whose date is a timestamp, the sizes of the groups by day add up to
  the number of those rows that pass \<open>Q\<close>.\<close>

lemma sum_list_day_groups:
  assumes "list_all is_datetime (filter (\<lambda>x. x \<noteq> NA) ds)"
  shows "sum_list (map (\<lambda>k. length (filter Q
            (group (map date_of (filter (\<lambda>x. x \<noteq> NA) ds))
               (mask (map (\<lambda>k. k \<noteq> NA) ds) vs) k)))
          (group_keys (map date_of (filter (\<lambda>x. x \<noteq> NA) ds))))
       = length (filter (\<lambda>p. fst p \<noteq> NA \<and> Q (snd p)) (zip ds vs))"
proof -
  have st: "date_of (fst p) \<noteq> NA" if "p \<in> set (zip ds vs)" and "fst p \<noteq> NA" for p
  proof -
    obtain a b where ab: "p = (a, b)"
      using surj_pair[of p] by blast
    from that(1) have "fst p \<in> set ds"
      unfolding ab by (simp add: set_zip_leftD)
    with that(2) have "fst p \<in> set (filter (\<lambda>x. x \<noteq> NA) ds)"
      by simp
    then have "is_datetime (fst p)"
      using assms unfolding list_all_iff by blast
    then show ?thesis using that(2) by (rule date_of_stamp)
  qed
  have "sum_list (map (\<lambda>k. length (filter Q
            (group (map date_of (filter (\<lambda>x. x \<noteq> NA) ds))
               (mask (map (\<lambda>k. k \<noteq> NA) ds) vs) k)))
          (group_keys (map date_of (filter (\<lambda>x. x \<noteq> NA) ds))))
      = length (filter (\<lambda>p. fst p \<noteq> NA \<and> Q (snd p))
          (zip (map date_of (filter (\<lambda>x. x \<noteq> NA) ds)) (mask (map (\<lambda>k. k \<noteq> NA) ds) vs)))"
    by (rule sum_list_groups)
  also have "\<dots> = length (filter (\<lambda>p. fst p \<noteq> NA \<and> Q (snd p))
          (map (\<lambda>p. (date_of (fst p), snd p)) (filter (\<lambda>p. fst p \<noteq> NA) (zip ds vs))))"
    by (simp only: zip_dates_mask)
  also have "\<dots> = length (filter (\<lambda>p. fst p \<noteq> NA \<and> Q (snd p)) (zip ds vs))"
    by (rule length_filter_mapped) (rule st)
  finally show ?thesis .
qed


lemma agg_incidents_Inr:
  assumes "agg_incidents df ks = Inr c"
  obtains ts where "getitem df ''DateTime'' = Inr ts"
    and "map fst c = group_keys ks"
    and "map snd c = map (\<lambda>k. count (group ks ts k)) (group_keys ks)"
  using assms
  by (auto simp: agg_incidents_def bind_exn_def o_def split: list.splits sum.splits)

lemma bind_exn_Inr:
  assumes "bind_exn m f = Inr y"
  obtains x where "m = Inr x" and "f x = Inr y"
  using assms by (cases m) (auto simp: bind_exn_def)

lemma daily_breakdown_days:
  assumes "getitem df ''Issued Date'' = Inr ds" and "getitem df ''Student'' = Inr st"
    and "daily_breakdown df = Inr b"
  shows "\<exists>days. map key b = map Day days \<and> sorted_wrt (<) days
            \<and> set days = {t div ns_per_day |t. Stamp t \<in> set ds}"
    and "sum_list (map Issued b)
           = length (filter (\<lambda>p. fst p \<noteq> NA \<and> snd p \<noteq> NA) (zip ds st))"
proof -
  let ?xs = "filter (\<lambda>x. x \<noteq> NA) ds"
  from assms(3) obtain w where w: "with_date df ''Issued Date'' = Inr w"
    and a: "(case w of (d, ks) \<Rightarrow> agg_detentions d ks) = Inr b"
    unfolding daily_breakdown_def by (rule bind_exn_Inr)
  obtain d' ks where dk: "w = (d', ks)" by (cases w)
  from w dk have wd: "with_date df ''Issued Date'' = Inr (d', ks)" by simp
  from a dk have agg: "agg_detentions d' ks = Inr b" by simp
  note wi = with_date_Inr[OF wd assms(1)]
  have ne: "''Student'' \<noteq> ''Date''" by simp
  have gs: "getitem d' ''Student'' = Inr (mask (map (\<lambda>k. k \<noteq> NA) ds) st)"
    using wi(3)[OF ne] assms(2) by simp
  from agg gs have k: "map key b = group_keys ks"
    and i: "map Issued b
        = map (\<lambda>k. count (group ks (mask (map (\<lambda>k. k \<noteq> NA) ds) st) k)) (group_keys ks)"
    by (auto elim!: agg_detentions_Inr)
  have na: "NA \<notin> set ?xs" by simp
  have sx: "{t div ns_per_day |t. Stamp t \<in> set ?xs} = {t div ns_per_day |t. Stamp t \<in> set ds}"
    by auto
  show "\<exists>days. map key b = map Day days \<and> sorted_wrt (<) days
            \<and> set days = {t div ns_per_day |t. Stamp t \<in> set ds}"
    using day_keys[OF wi(2) na] unfolding k wi(1) sx .
  show "sum_list (map Issued b)
           = length (filter (\<lambda>p. fst p \<noteq> NA \<and> snd p \<noteq> NA) (zip ds st))"
    unfolding i wi(1) count_def by (rule sum_list_day_groups[OF wi(2)])
qed

lemma daily_incidents_days:
  assumes "getitem df ''DateTime'' = Inr ts" and "daily_incidents df = Inr c"
  shows "\<exists>days. map fst c = map Day days \<and> sorted_wrt (<) days
            \<and> set days = {t div ns_per_day |t. Stamp t \<in> set ts}"
    and "sum_list (map snd c) = length (filter (\<lambda>x. x \<noteq> NA) ts)"
proof -
  let ?xs = "filter (\<lambda>x. x \<noteq> NA) ts"
  from assms(2) obtain w where w: "with_date df ''DateTime'' = Inr w"
    and a: "(case w of (d, ks) \<Rightarrow> agg_incidents d ks) = Inr c"
    unfolding daily_incidents_def by (rule bind_exn_Inr)
  obtain d' ks where dk: "w = (d', ks)" by (cases w)
  from w dk have wd: "with_date df ''DateTime'' = Inr (d', ks)" by simp
  from a dk have agg: "agg_incidents d' ks = Inr c" by simp
  note wi = with_date_Inr[OF wd assms(1)]
  have ne: "''DateTime'' \<noteq> ''Date''" by simp
  have gs: "getitem d' ''DateTime'' = Inr (mask (map (\<lambda>k. k \<noteq> NA) ts) ts)"
    using wi(3)[OF ne] assms(1) by simp
  from agg gs have k: "map fst c = group_keys ks"
    and i: "map snd c
        = map (\<lambda>k. count (group ks (mask (map (\<lambda>k. k \<noteq> NA) ts) ts) k)) (group_keys ks)"
    by (auto elim!: agg_incidents_Inr)
  have na: "NA \<notin> set ?xs" by simp
  have sx: "{t div ns_per_day |t. Stamp t \<in> set ?xs} = {t div ns_per_day |t. Stamp t \<in> set ts}"
    by auto
  show "\<exists>days. map fst c = map Day days \<and> sorted_wrt (<) days
            \<and> set days = {t div ns_per_day |t. Stamp t \<in> set ts}"
    using day_keys[OF wi(2) na] unfolding k wi(1) sx .
  have "sum_list (map snd c)
      = length (filter (\<lambda>p. fst p \<noteq> NA \<and> snd p \<noteq> NA) (zip ts ts))"
    unfolding i wi(1) count_def by (rule sum_list_day_groups[OF wi(2)])
  also have "\<dots> = length (filter (\<lambda>x. x \<noteq> NA) ts)"
    by (simp add: zip_same_conv_map filter_map o_def)
  finally show "sum_list (map snd c) = length (filter (\<lambda>x. x \<noteq> NA) ts)" .
qed


text \<open>
  Claim C5, as the code has it. When the day breakdown of a detentions table is produced,
  its groups are the distinct calendar days of the timestamps under
  \<^verbatim>\<open>Issued Date\<close> (each timestamp divided down to its day, the rows with a missing
  date left out), in strictly ascending order, and the \<^verbatim>\<open>Issued\<close> counts sum to the
  number of rows whose date and whose \<^verbatim>\<open>Student\<close> are both not missing. For
  incidents the groups are the days of \<^verbatim>\<open>DateTime\<close> in the same way, and the counts
  sum to the number of rows whose date is not missing.
\<close>

theorem daily_breakdown_counts:
  "(wf_frame df \<and> getitem df ''Issued Date'' = Inr ds \<and> getitem df ''Student'' = Inr st
      \<and> daily_breakdown df = Inr b \<longrightarrow>
        (\<exists>days. map key b = map Day days \<and> sorted_wrt (<) days
            \<and> set days = {t div ns_per_day |t. Stamp t \<in> set ds})
      \<and> sum_list (map Issued b)
          = length (filter (\<lambda>p. fst p \<noteq> NA \<and> snd p \<noteq> NA) (zip ds st))
      \<and> length (zip ds st) = nrows df)
   \<and> (getitem df' ''DateTime'' = Inr ts \<and> daily_incidents df' = Inr c \<longrightarrow>
        (\<exists>days. map fst c = map Day days \<and> sorted_wrt (<) days
            \<and> set days = {t div ns_per_day |t. Stamp t \<in> set ts})
      \<and> sum_list (map snd c) = length (filter (\<lambda>x. x \<noteq> NA) ts))"
proof (intro conjI impI)
  assume h: "wf_frame df \<and> getitem df ''Issued Date'' = Inr ds \<and> getitem df ''Student'' = Inr st
      \<and> daily_breakdown df = Inr b"
  then have g1: "getitem df ''Issued Date'' = Inr ds" and g2: "getitem df ''Student'' = Inr st"
    and d: "daily_breakdown df = Inr b" and wf: "wf_frame df"
    by simp_all
  show "\<exists>days. map key b = map Day days \<and> sorted_wrt (<) days
            \<and> set days = {t div ns_per_day |t. Stamp t \<in> set ds}"
    using g1 g2 d by (rule daily_breakdown_days(1))
  show "sum_list (map Issued b)
          = length (filter (\<lambda>p. fst p \<noteq> NA \<and> snd p \<noteq> NA) (zip ds st))"
    using g1 g2 d by (rule daily_breakdown_days(2))
  show "length (zip ds st) = nrows df"
    using getitem_length[OF wf g1] getitem_length[OF wf g2] by simp
next
  assume h: "getitem df' ''DateTime'' = Inr ts \<and> daily_incidents df' = Inr c"
  then have g: "getitem df' ''DateTime'' = Inr ts" and d: "daily_incidents df' = Inr c"
    by simp_all
  show "\<exists>days. map fst c = map Day days \<and> sorted_wrt (<) days
            \<and> set days = {t div ns_per_day |t. Stamp t \<in> set ts}"
    using g d by (rule daily_incidents_days(1))
  show "sum_list (map snd c) = length (filter (\<lambda>x. x \<noteq> NA) ts)"
    using g d by (rule daily_incidents_days(2))
qed

text \<open>
  The claim as stated fails for detentions: of two rows with a date, one without a
  student, the single day group counts 1.
\<close>

theorem null_student_not_counted:
  "daily_breakdown \<lparr>nrows = 2, cols =
        [(''Student'', [Str ''Ann'', NA]),
         (''Issued Date'', [Stamp 1704412800000000000, Stamp 1704416400000000000]),
         (''Detention Attendance'', [Str ''Present'', Str ''Present''])]\<rparr>
     = Inr [\<lparr>key = Day 19727, Issued = 1, Attended = 2, Attendance_Rate = Ratio 2\<rparr>]
   \<and> length (filter (\<lambda>x. x \<noteq> NA)
        [Stamp 1704412800000000000, Stamp 1704416400000000000]) = 2"
  by code_simp

text \<open>The ten rows of the specification's example, three of them without a date: the
  day groups sum to 7. Three incidents, one without a date: the single day counts 2.\<close>

theorem daily_breakdown_counts_witness:
  "wf_frame \<lparr>nrows = 10, cols =
        [(''Student'', [Str ''a'', Str ''b'', Str ''c'', Str ''d'', Str ''e'',
                        Str ''f'', Str ''g'', Str ''h'', Str ''i'', Str ''j'']),
         (''Issued Date'', [Stamp 1704585600000000000, Stamp 1704416400000000000, NA,
                            Stamp 1704499200000000000, NA, Stamp 1704412800000000000,
                            Stamp 1704499200000000001, Stamp 1704585600000000000, NA,
                            Stamp 1704412800000000000]),
         (''Detention Attendance'', [Str ''Present'', Str ''Absent'', Str ''Present'',
                            Str ''Present'', Str ''Present'', Str ''Present'', Str ''Absent'',
                            Str ''Present'', Str ''Present'', Str ''Present''])]\<rparr>
   \<and> getitem \<lparr>nrows = 10, cols =
        [(''Student'', [Str ''a'', Str ''b'', Str ''c'', Str ''d'', Str ''e'',
                        Str ''f'', Str ''g'', Str ''h'', Str ''i'', Str ''j'']),
         (''Issued Date'', [Stamp 1704585600000000000, Stamp 1704416400000000000, NA,
                            Stamp 1704499200000000000, NA, Stamp 1704412800000000000,
                            Stamp 1704499200000000001, Stamp 1704585600000000000, NA,
                            Stamp 1704412800000000000]),
         (''Detention Attendance'', [Str ''Present'', Str ''Absent'', Str ''Present'',
                            Str ''Present'', Str ''Present'', Str ''Present'', Str ''Absent'',
                            Str ''Present'', Str ''Present'', Str ''Present''])]\<rparr> ''Issued Date'' = Inr [Stamp 1704585600000000000, Stamp 1704416400000000000, NA,
                            Stamp 1704499200000000000, NA, Stamp 1704412800000000000,
                            Stamp 1704499200000000001, Stamp 1704585600000000000, NA,
                            Stamp 1704412800000000000]
   \<and> getitem \<lparr>nrows = 10, cols =
        [(''Student'', [Str ''a'', Str ''b'', Str ''c'', Str ''d'', Str ''e'',
                        Str ''f'', Str ''g'', Str ''h'', Str ''i'', Str ''j'']),
         (''Issued Date'', [Stamp 1704585600000000000, Stamp 1704416400000000000, NA,
                            Stamp 1704499200000000000, NA, Stamp 1704412800000000000,
                            Stamp 1704499200000000001, Stamp 1704585600000000000, NA,
                            Stamp 1704412800000000000]),
         (''Detention Attendance'', [Str ''Present'', Str ''Absent'', Str ''Present'',
                            Str ''Present'', Str ''Present'', Str ''Present'', Str ''Absent'',
                            Str ''Present'', Str ''Present'', Str ''Present''])]\<rparr> ''Student'' = Inr [Str ''a'', Str ''b'', Str ''c'', Str ''d'', Str ''e'',
                        Str ''f'', Str ''g'', Str ''h'', Str ''i'', Str ''j'']
   \<and> daily_breakdown \<lparr>nrows = 10, cols =
        [(''Student'', [Str ''a'', Str ''b'', Str ''c'', Str ''d'', Str ''e'',
                        Str ''f'', Str ''g'', Str ''h'', Str ''i'', Str ''j'']),
         (''Issued Date'', [Stamp 1704585600000000000, Stamp 1704416400000000000, NA,
                            Stamp 1704499200000000000, NA, Stamp 1704412800000000000,
                            Stamp 1704499200000000001, Stamp 1704585600000000000, NA,
                            Stamp 1704412800000000000]),
         (''Detention Attendance'', [Str ''Present'', Str ''Absent'', Str ''Present'',
                            Str ''Present'', Str ''Present'', Str ''Present'', Str ''Absent'',
                            Str ''Present'', Str ''Present'', Str ''Present''])]\<rparr> = Inr [\<lparr>key = Day 19727, Issued = 3, Attended = 2, Attendance_Rate = Ratio (2 / 3)\<rparr>,
          \<lparr>key = Day 19728, Issued = 2, Attended = 1, Attendance_Rate = Ratio (1 / 2)\<rparr>,
          \<lparr>key = Day 19729, Issued = 2, Attended = 2, Attendance_Rate = Ratio 1\<rparr>]
   \<and> sum_list (map Issued [\<lparr>key = Day 19727, Issued = 3, Attended = 2, Attendance_Rate = Ratio (2 / 3)\<rparr>,
          \<lparr>key = Day 19728, Issued = 2, Attended = 1, Attendance_Rate = Ratio (1 / 2)\<rparr>,
          \<lparr>key = Day 19729, Issued = 2, Attended = 2, Attendance_Rate = Ratio 1\<rparr>])
       = length (filter (\<lambda>p. fst p \<noteq> NA \<and> snd p \<noteq> NA) (zip [Stamp 1704585600000000000, Stamp 1704416400000000000, NA,
                            Stamp 1704499200000000000, NA, Stamp 1704412800000000000,
                            Stamp 1704499200000000001, Stamp 1704585600000000000, NA,
                            Stamp 1704412800000000000] [Str ''a'', Str ''b'', Str ''c'', Str ''d'', Str ''e'',
                        Str ''f'', Str ''g'', Str ''h'', Str ''i'', Str ''j'']))
   \<and> length (filter (\<lambda>p. fst p \<noteq> NA \<and> snd p \<noteq> NA) (zip [Stamp 1704585600000000000, Stamp 1704416400000000000, NA,
                            Stamp 1704499200000000000, NA, Stamp 1704412800000000000,
                            Stamp 1704499200000000001, Stamp 1704585600000000000, NA,
                            Stamp 1704412800000000000] [Str ''a'', Str ''b'', Str ''c'', Str ''d'', Str ''e'',
                        Str ''f'', Str ''g'', Str ''h'', Str ''i'', Str ''j''])) = 7
   \<and> getitem \<lparr>nrows = 3, cols = [(''DateTime'',
          [Stamp 1704416400000000000, NA, Stamp 1704412800000000000])]\<rparr> ''DateTime'' = Inr [Stamp 1704416400000000000, NA, Stamp 1704412800000000000]
   \<and> daily_incidents \<lparr>nrows = 3, cols = [(''DateTime'',
          [Stamp 1704416400000000000, NA, Stamp 1704412800000000000])]\<rparr> = Inr [(Day 19727, 2)]
   \<and> sum_list (map snd [(Day 19727, 2 :: nat)]) = length (filter (\<lambda>x. x \<noteq> NA) [Stamp 1704416400000000000, NA, Stamp 1704412800000000000])"
proof -
  have h1: "wf_frame \<lparr>nrows = 10, cols =
        [(''Student'', [Str ''a'', Str ''b'', Str ''c'', Str ''d'', Str ''e'',
                        Str ''f'', Str ''g'', Str ''h'', Str ''i'', Str ''j'']),
         (''Issued Date'', [Stamp 1704585600000000000, Stamp 1704416400000000000, NA,
                            Stamp 1704499200000000000, NA, Stamp 1704412800000000000,
                            Stamp 1704499200000000001, Stamp 1704585600000000000, NA,
                            Stamp 1704412800000000000]),
         (''Detention Attendance'', [Str ''Present'', Str ''Absent'', Str ''Present'',
                            Str ''Present'', Str ''Present'', Str ''Present'', Str ''Absent'',
                            Str ''Present'', Str ''Present'', Str ''Present''])]\<rparr>"
    by code_simp
  have h2: "getitem \<lparr>nrows = 10, cols =
        [(''Student'', [Str ''a'', Str ''b'', Str ''c'', Str ''d'', Str ''e'',
                        Str ''f'', Str ''g'', Str ''h'', Str ''i'', Str ''j'']),
         (''Issued Date'', [Stamp 1704585600000000000, Stamp 1704416400000000000, NA,
                            Stamp 1704499200000000000, NA, Stamp 1704412800000000000,
                            Stamp 1704499200000000001, Stamp 1704585600000000000, NA,
                            Stamp 1704412800000000000]),
         (''Detention Attendance'', [Str ''Present'', Str ''Absent'', Str ''Present'',
                            Str ''Present'', Str ''Present'', Str ''Present'', Str ''Absent'',
                            Str ''Present'', Str ''Present'', Str ''Present''])]\<rparr> ''Issued Date'' = Inr [Stamp 1704585600000000000, Stamp 1704416400000000000, NA,
                            Stamp 1704499200000000000, NA, Stamp 1704412800000000000,
                            Stamp 1704499200000000001, Stamp 1704585600000000000, NA,
                            Stamp 1704412800000000000]"
    by code_simp
  have h3: "getitem \<lparr>nrows = 10, cols =
        [(''Student'', [Str ''a'', Str ''b'', Str ''c'', Str ''d'', Str ''e'',
                        Str ''f'', Str ''g'', Str ''h'', Str ''i'', Str ''j'']),
         (''Issued Date'', [Stamp 1704585600000000000, Stamp 1704416400000000000, NA,
                            Stamp 1704499200000000000, NA, Stamp 1704412800000000000,
                            Stamp 1704499200000000001, Stamp 1704585600000000000, NA,
                            Stamp 1704412800000000000]),
         (''Detention Attendance'', [Str ''Present'', Str ''Absent'', Str ''Present'',
                            Str ''Present'', Str ''Present'', Str ''Present'', Str ''Absent'',
                            Str ''Present'', Str ''Present'', Str ''Present''])]\<rparr> ''Student'' = Inr [Str ''a'', Str ''b'', Str ''c'', Str ''d'', Str ''e'',
                        Str ''f'', Str ''g'', Str ''h'', Str ''i'', Str ''j'']"
    by code_simp
  have h4: "daily_breakdown \<lparr>nrows = 10, cols =
        [(''Student'', [Str ''a'', Str ''b'', Str ''c'', Str ''d'', Str ''e'',
                        Str ''f'', Str ''g'', Str ''h'', Str ''i'', Str ''j'']),
         (''Issued Date'', [Stamp 1704585600000000000, Stamp 1704416400000000000, NA,
                            Stamp 1704499200000000000, NA, Stamp 1704412800000000000,
                            Stamp 1704499200000000001, Stamp 1704585600000000000, NA,
                            Stamp 1704412800000000000]),
         (''Detention Attendance'', [Str ''Present'', Str ''Absent'', Str ''Present'',
                            Str ''Present'', Str ''Present'', Str ''Present'', Str ''Absent'',
                            Str ''Present'', Str ''Present'', Str ''Present''])]\<rparr> = Inr [\<lparr>key = Day 19727, Issued = 3, Attended = 2, Attendance_Rate = Ratio (2 / 3)\<rparr>,
          \<lparr>key = Day 19728, Issued = 2, Attended = 1, Attendance_Rate = Ratio (1 / 2)\<rparr>,
          \<lparr>key = Day 19729, Issued = 2, Attended = 2, Attendance_Rate = Ratio 1\<rparr>]"
    by code_simp
  have v: "length (filter (\<lambda>p. fst p \<noteq> NA \<and> snd p \<noteq> NA) (zip [Stamp 1704585600000000000, Stamp 1704416400000000000, NA,
                            Stamp 1704499200000000000, NA, Stamp 1704412800000000000,
                            Stamp 1704499200000000001, Stamp 1704585600000000000, NA,
                            Stamp 1704412800000000000] [Str ''a'', Str ''b'', Str ''c'', Str ''d'', Str ''e'',
                        Str ''f'', Str ''g'', Str ''h'', Str ''i'', Str ''j''])) = 7"
    by code_simp
  note h = conjI [OF h1 conjI [OF h2 conjI [OF h3 h4]]]
  note r = daily_breakdown_counts [THEN conjunct1, THEN mp, OF h, THEN conjunct2, THEN conjunct1]
  have g1: "getitem \<lparr>nrows = 3, cols = [(''DateTime'',
          [Stamp 1704416400000000000, NA, Stamp 1704412800000000000])]\<rparr> ''DateTime'' = Inr [Stamp 1704416400000000000, NA, Stamp 1704412800000000000]"
    by code_simp
  have g2: "daily_incidents \<lparr>nrows = 3, cols = [(''DateTime'',
          [Stamp 1704416400000000000, NA, Stamp 1704412800000000000])]\<rparr> = Inr [(Day 19727, 2)]"
    by code_simp
  note r' = daily_breakdown_counts [THEN conjunct2, THEN mp, OF conjI [OF g1 g2], THEN conjunct2]
  from h1 h2 h3 h4 r v g1 g2 r' show ?thesis by (intro conjI)
qed

end
